theory Spec2Isabelle
  imports Complex_Main
begin

section \<open>The 2D drawing context as the components use it\<close>

text \<open>
  Both components draw through a \<open>CanvasRenderingContext2D\<close>. The context is modelled as
  the state the source reads and writes: the drawing state (the properties the source
  assigns, and the transformation), the stack that \<open>save\<close> and \<open>restore\<close> maintain, the
  current path, and the list of drawing events (\<open>clearRect\<close>, \<open>fill\<close>, \<open>stroke\<close>) issued so
  far, each with the path and the drawing state it was issued under.

  JavaScript numbers are modelled as real numbers. Where a number is only drawn with, the
  rounding of doubles is left out; where it decides a whole pixel, under \<open>Math.ceil\<close> in
  \<open>resizeCanvas\<close>, the product is rounded as the machine rounds it (\<open>round_double\<close> below).
  A property assignment stores the assigned value and a drawing call records its
  arguments: what the browser does with values it rejects (an unparsable colour string, a
  negative radius) is not part of the source and is not modelled, in line with the
  source, which checks nothing but the presence of the canvas and of its context.
\<close>

text \<open>
  Rounding to the nearest double: 53 significant bits, ties to the even significand, the
  spacing of the subnormal numbers below \<open>2 powr - 1022\<close>. Overflow to \<open>Infinity\<close> is left out.
  \<open>js_times\<close> is the product \<open>*\<close> of two JavaScript numbers.
\<close>

definition round_half_even :: "real \<Rightarrow> int" where
  "round_half_even y =
     (let f = \<lfloor>y\<rfloor>
      in if y - real_of_int f < 1 / 2 then f
         else if 1 / 2 < y - real_of_int f then f + 1
         else if even f then f else f + 1)"

definition round_double :: "real \<Rightarrow> real" where
  "round_double x =
     (if x = 0 then 0
      else (let e = max \<lfloor>log 2 \<bar>x\<bar>\<rfloor> (- 1022);
                u = 2 powr (real_of_int e - 52)
            in real_of_int (round_half_even (x / u)) * u))"

definition js_times :: "real \<Rightarrow> real \<Rightarrow> real" where
  "js_times x y = round_double (x * y)"

type_synonym matrix = "real \<times> real \<times> real \<times> real \<times> real \<times> real"

record gradient =
  grad_x0 :: real
  grad_y0 :: real
  grad_r0 :: real
  grad_x1 :: real
  grad_y1 :: real
  grad_r1 :: real
  stops :: "(real \<times> string) list"

datatype paint = Color string | Gradient gradient

datatype seg =
    MoveTo real real
  | LineTo real real
  | QuadraticCurveTo real real real real
  | BezierCurveTo real real real real real real
  | Arc real real real real real bool
  | Ellipse real real real real real real real
  | ClosePath

record dstate =
  strokeStyle :: paint
  fillStyle :: paint
  lineWidth :: real
  shadowColor :: string
  shadowBlur :: real
  globalAlpha :: real
  lineJoin :: string
  lineCap :: string
  globalCompositeOperation :: string
  transform :: matrix

datatype draw_event =
    ClearRect real real real real
  | Fill "seg list" dstate
  | Stroke "seg list" dstate

record ctx =
  st :: dstate
  saved :: "dstate list"
  cur_path :: "seg list"
  drawn :: "draw_event list"

definition default_dstate :: dstate where
  "default_dstate =
     \<lparr>strokeStyle = Color ''#000000'', fillStyle = Color ''#000000'', lineWidth = 1,
      shadowColor = ''rgba(0, 0, 0, 0)'', shadowBlur = 0, globalAlpha = 1,
      lineJoin = ''miter'', lineCap = ''butt'',
      globalCompositeOperation = ''source-over'', transform = (1, 0, 0, 1, 0, 0)\<rparr>"

definition fresh_ctx :: ctx where
  "fresh_ctx = \<lparr>st = default_dstate, saved = [], cur_path = [], drawn = []\<rparr>"

definition ctx_save :: "ctx \<Rightarrow> ctx" where
  "ctx_save c = c\<lparr>saved := st c # saved c\<rparr>"

definition ctx_restore :: "ctx \<Rightarrow> ctx" where
  "ctx_restore c = (case saved c of [] \<Rightarrow> c | s # ss \<Rightarrow> c\<lparr>st := s, saved := ss\<rparr>)"

definition set_strokeStyle :: "paint \<Rightarrow> ctx \<Rightarrow> ctx" where
  "set_strokeStyle v c = c\<lparr>st := (st c)\<lparr>strokeStyle := v\<rparr>\<rparr>"

definition set_fillStyle :: "paint \<Rightarrow> ctx \<Rightarrow> ctx" where
  "set_fillStyle v c = c\<lparr>st := (st c)\<lparr>fillStyle := v\<rparr>\<rparr>"

definition set_lineWidth :: "real \<Rightarrow> ctx \<Rightarrow> ctx" where
  "set_lineWidth v c = c\<lparr>st := (st c)\<lparr>lineWidth := v\<rparr>\<rparr>"

definition set_shadowColor :: "string \<Rightarrow> ctx \<Rightarrow> ctx" where
  "set_shadowColor v c = c\<lparr>st := (st c)\<lparr>shadowColor := v\<rparr>\<rparr>"

definition set_shadowBlur :: "real \<Rightarrow> ctx \<Rightarrow> ctx" where
  "set_shadowBlur v c = c\<lparr>st := (st c)\<lparr>shadowBlur := v\<rparr>\<rparr>"

definition set_globalAlpha :: "real \<Rightarrow> ctx \<Rightarrow> ctx" where
  "set_globalAlpha v c = c\<lparr>st := (st c)\<lparr>globalAlpha := v\<rparr>\<rparr>"

definition set_lineJoin :: "string \<Rightarrow> ctx \<Rightarrow> ctx" where
  "set_lineJoin v c = c\<lparr>st := (st c)\<lparr>lineJoin := v\<rparr>\<rparr>"

definition set_lineCap :: "string \<Rightarrow> ctx \<Rightarrow> ctx" where
  "set_lineCap v c = c\<lparr>st := (st c)\<lparr>lineCap := v\<rparr>\<rparr>"

definition set_globalCompositeOperation :: "string \<Rightarrow> ctx \<Rightarrow> ctx" where
  "set_globalCompositeOperation v c = c\<lparr>st := (st c)\<lparr>globalCompositeOperation := v\<rparr>\<rparr>"

definition ctx_setTransform :: "real \<Rightarrow> real \<Rightarrow> real \<Rightarrow> real \<Rightarrow> real \<Rightarrow> real \<Rightarrow> ctx \<Rightarrow> ctx" where
  "ctx_setTransform a b c' d e f c = c\<lparr>st := (st c)\<lparr>transform := (a, b, c', d, e, f)\<rparr>\<rparr>"

definition ctx_translate :: "real \<Rightarrow> real \<Rightarrow> ctx \<Rightarrow> ctx" where
  "ctx_translate tx ty c =
     (case transform (st c) of (a, b, c', d, e, f) \<Rightarrow>
        c\<lparr>st := (st c)\<lparr>transform := (a, b, c', d, a * tx + c' * ty + e, b * tx + d * ty + f)\<rparr>\<rparr>)"

definition ctx_rotate :: "real \<Rightarrow> ctx \<Rightarrow> ctx" where
  "ctx_rotate r c =
     (case transform (st c) of (a, b, c', d, e, f) \<Rightarrow>
        c\<lparr>st := (st c)\<lparr>transform :=
          (a * cos r + c' * sin r, b * cos r + d * sin r,
           c' * cos r - a * sin r, d * cos r - b * sin r, e, f)\<rparr>\<rparr>)"

definition ctx_scale :: "real \<Rightarrow> real \<Rightarrow> ctx \<Rightarrow> ctx" where
  "ctx_scale sx sy c =
     (case transform (st c) of (a, b, c', d, e, f) \<Rightarrow>
        c\<lparr>st := (st c)\<lparr>transform := (a * sx, b * sx, c' * sy, d * sy, e, f)\<rparr>\<rparr>)"

definition ctx_beginPath :: "ctx \<Rightarrow> ctx" where
  "ctx_beginPath c = c\<lparr>cur_path := []\<rparr>"

definition add_seg :: "seg \<Rightarrow> ctx \<Rightarrow> ctx" where
  "add_seg s c = c\<lparr>cur_path := cur_path c @ [s]\<rparr>"

definition ctx_moveTo :: "real \<Rightarrow> real \<Rightarrow> ctx \<Rightarrow> ctx" where
  "ctx_moveTo x y = add_seg (MoveTo x y)"

definition ctx_lineTo :: "real \<Rightarrow> real \<Rightarrow> ctx \<Rightarrow> ctx" where
  "ctx_lineTo x y = add_seg (LineTo x y)"

definition ctx_quadraticCurveTo :: "real \<Rightarrow> real \<Rightarrow> real \<Rightarrow> real \<Rightarrow> ctx \<Rightarrow> ctx" where
  "ctx_quadraticCurveTo cx cy x y = add_seg (QuadraticCurveTo cx cy x y)"

definition ctx_bezierCurveTo ::
  "real \<Rightarrow> real \<Rightarrow> real \<Rightarrow> real \<Rightarrow> real \<Rightarrow> real \<Rightarrow> ctx \<Rightarrow> ctx" where
  "ctx_bezierCurveTo c1x c1y c2x c2y x y = add_seg (BezierCurveTo c1x c1y c2x c2y x y)"

definition ctx_arc :: "real \<Rightarrow> real \<Rightarrow> real \<Rightarrow> real \<Rightarrow> real \<Rightarrow> bool \<Rightarrow> ctx \<Rightarrow> ctx" where
  "ctx_arc x y r a0 a1 ccw = add_seg (Arc x y r a0 a1 ccw)"

definition ctx_ellipse ::
  "real \<Rightarrow> real \<Rightarrow> real \<Rightarrow> real \<Rightarrow> real \<Rightarrow> real \<Rightarrow> real \<Rightarrow> ctx \<Rightarrow> ctx" where
  "ctx_ellipse x y rx ry rot a0 a1 = add_seg (Ellipse x y rx ry rot a0 a1)"

definition ctx_closePath :: "ctx \<Rightarrow> ctx" where
  "ctx_closePath = add_seg ClosePath"

definition ctx_stroke :: "ctx \<Rightarrow> ctx" where
  "ctx_stroke c = c\<lparr>drawn := drawn c @ [Stroke (cur_path c) (st c)]\<rparr>"

definition ctx_fill :: "ctx \<Rightarrow> ctx" where
  "ctx_fill c = c\<lparr>drawn := drawn c @ [Fill (cur_path c) (st c)]\<rparr>"

definition ctx_clearRect :: "real \<Rightarrow> real \<Rightarrow> real \<Rightarrow> real \<Rightarrow> ctx \<Rightarrow> ctx" where
  "ctx_clearRect x y w h c = c\<lparr>drawn := drawn c @ [ClearRect x y w h]\<rparr>"

section \<open>The host: surface, window, listeners and the frame scheduler\<close>

text \<open>
  A canvas element has its backing pixel dimensions, its CSS dimensions (the source writes
  them as \<open>`${size}px`\<close>) and, when the host can supply one, its 2D context.
  \<open>getContext("2d")\<close> returns the same context on every call, or \<open>null\<close>.
\<close>

datatype css_length = Px real

record canvas =
  width :: int
  height :: int
  style_width :: "css_length option"
  style_height :: "css_length option"
  has_context :: bool
  ctx2d :: ctx

definition getContext :: "canvas \<Rightarrow> ctx option" where
  "getContext cv = (if has_context cv then Some (ctx2d cv) else None)"

text \<open>
  The props of \<open>Ornament\<close>, with the defaults applied. The field \<open>size_px\<close> is the prop
  \<open>size\<close> (the name \<open>size\<close> is taken in HOL).
\<close>

record props =
  size_px :: real
  color :: string
  glow :: real
  rotation :: real
  pulse :: bool

text \<open>The component's defaults: \<open>size = 160, color = "#ff02e6", glow = 28, rotation = 0, pulse = false\<close>.\<close>

definition default_props :: props where
  "default_props = \<lparr>size_px = 160, color = ''#ff02e6'', glow = 28, rotation = 0, pulse = False\<rparr>"

text \<open>
  Closures handed to the host are named by what they run and what they captured: the
  frame callbacks given to \<open>requestAnimationFrame\<close>, the resize listeners given to
  \<open>addEventListener\<close>, and the cleanup an effect returns.
\<close>

datatype callback = MandalaRender | OrnamentFrame props
datatype listener = MandalaResize | OrnamentResize props
datatype cleanup = MandalaCleanup | OrnamentCleanup props

text \<open>
  The host as one mounted component sees it: the window (\<open>innerWidth\<close>, \<open>innerHeight\<close>,
  \<open>devicePixelRatio\<close>), the canvas element of the component and whether \<open>canvasRef.current\<close>
  holds it, the resize listeners on the window, the frame callbacks waiting for the next
  animation frame with their handles, the last handle given out, and the two other refs
  of \<open>Ornament\<close>.
\<close>

record host =
  innerWidth :: int
  innerHeight :: int
  devicePixelRatio :: real
  canvas_attached :: bool
  canvas :: canvas
  resize_listeners :: "listener list"
  raf_pending :: "(nat \<times> callback) list"
  raf_last :: nat
  rafRef :: "nat option"
  tRef :: real

text \<open>
  \<open>requestAnimationFrame\<close> returns a fresh handle, always positive, and queues the callback;
  \<open>cancelAnimationFrame\<close> removes the callback with that handle from the queue.
\<close>

definition requestAnimationFrame :: "callback \<Rightarrow> host \<Rightarrow> nat \<times> host" where
  "requestAnimationFrame cb h =
     (let k = Suc (raf_last h)
      in (k, h\<lparr>raf_last := k, raf_pending := raf_pending h @ [(k, cb)]\<rparr>))"

definition cancelAnimationFrame :: "nat \<Rightarrow> host \<Rightarrow> host" where
  "cancelAnimationFrame k h = h\<lparr>raf_pending := filter (\<lambda>(j, cb). j \<noteq> k) (raf_pending h)\<rparr>"

definition addEventListener :: "listener \<Rightarrow> host \<Rightarrow> host" where
  "addEventListener l h = h\<lparr>resize_listeners := resize_listeners h @ [l]\<rparr>"

definition removeEventListener :: "listener \<Rightarrow> host \<Rightarrow> host" where
  "removeEventListener l h = h\<lparr>resize_listeners := remove1 l (resize_listeners h)\<rparr>"

definition with_ctx :: "(ctx \<Rightarrow> ctx) \<Rightarrow> host \<Rightarrow> host" where
  "with_ctx f h = h\<lparr>canvas := (canvas h)\<lparr>ctx2d := f (ctx2d (canvas h))\<rparr>\<rparr>"

definition createRadialGradient ::
  "real \<Rightarrow> real \<Rightarrow> real \<Rightarrow> real \<Rightarrow> real \<Rightarrow> real \<Rightarrow> gradient" where
  "createRadialGradient x0 y0 r0 x1 y1 r1 =
     \<lparr>grad_x0 = x0, grad_y0 = y0, grad_r0 = r0, grad_x1 = x1, grad_y1 = y1, grad_r1 = r1,
      stops = []\<rparr>"

definition addColorStop :: "real \<Rightarrow> string \<Rightarrow> gradient \<Rightarrow> gradient" where
  "addColorStop off col g = g\<lparr>stops := stops g @ [(off, col)]\<rparr>"

section \<open>MandalaBase\<close>

definition mandala_resize :: "host \<Rightarrow> host" where
  "mandala_resize h = h\<lparr>canvas := (canvas h)\<lparr>width := innerWidth h, height := innerHeight h\<rparr>\<rparr>"

definition center :: "host \<Rightarrow> real \<times> real" where
  "center h = (real_of_int (width (canvas h)) / 2, real_of_int (height (canvas h)) / 2)"

definition drawGlowingRing :: "real \<Rightarrow> real \<Rightarrow> real \<Rightarrow> real \<Rightarrow> string \<Rightarrow> ctx \<Rightarrow> ctx" where
  "drawGlowingRing x y radius thickness col c0 =
     (let innerRadius = radius - thickness / 2;
          outerRadius = radius + thickness / 2;
          gradient = createRadialGradient x y innerRadius x y outerRadius;
          gradient = addColorStop 0 ''transparent'' gradient;
          gradient = addColorStop 0.4 (col @ ''80'') gradient;
          gradient = addColorStop 0.5 col gradient;
          gradient = addColorStop 0.6 (col @ ''80'') gradient;
          gradient = addColorStop 1 ''transparent'' gradient;
          c = ctx_save c0;
          c = set_globalCompositeOperation ''lighter'' c;
          c = set_fillStyle (Gradient gradient) c;
          c = ctx_beginPath c;
          c = ctx_arc x y outerRadius 0 (pi * 2) False c;
          c = ctx_arc x y innerRadius 0 (pi * 2) True c;
          c = ctx_closePath c;
          c = ctx_fill c
      in ctx_restore c)"

record circle_opts =
  co_color :: "string option"
  co_lineWidth :: "real option"
  co_dotted :: "bool option"
  co_dotCount :: "real option"

text \<open>
  The body of the loop \<open>for (let i = 0; i < dotCount; i++)\<close>, and the loop. \<open>dotCount\<close> is a
  JavaScript number, so the loop runs while \<open>i < dotCount\<close> for any real \<open>dotCount\<close>.
\<close>

definition plot_dot :: "real \<Rightarrow> real \<Rightarrow> real \<Rightarrow> string \<Rightarrow> real \<Rightarrow> nat \<Rightarrow> ctx \<Rightarrow> ctx" where
  "plot_dot x y radius col angleStep i c0 =
     (let angle = real i * angleStep;
          dotX = x + cos angle * radius;
          dotY = y + sin angle * radius;
          c = ctx_beginPath c0;
          c = ctx_arc dotX dotY 2 0 (pi * 2) False c;
          c = set_fillStyle (Color col) c
      in ctx_fill c)"

function dotted_loop ::
  "real \<Rightarrow> real \<Rightarrow> real \<Rightarrow> string \<Rightarrow> real \<Rightarrow> real \<Rightarrow> nat \<Rightarrow> ctx \<Rightarrow> ctx" where
  "dotted_loop x y radius col dotCount angleStep i c =
     (if real i < dotCount
      then dotted_loop x y radius col dotCount angleStep (Suc i)
             (plot_dot x y radius col angleStep i c)
      else c)"
  by pat_completeness auto
termination
proof (relation "measure (\<lambda>(x, y, radius, col, dotCount, angleStep, i, c). nat \<lceil>dotCount\<rceil> - i)")
  show "wf (measure (\<lambda>(x, y, radius, col, dotCount, angleStep, i, c). nat \<lceil>dotCount :: real\<rceil> - i))"
    by simp
next
  fix x y radius :: real and col :: string and dotCount angleStep :: real and i :: nat and c :: ctx
  assume "real i < dotCount"
  then have "int i < \<lceil>dotCount\<rceil>"
    by linarith
  then have "i < nat \<lceil>dotCount\<rceil>"
    by linarith
  then show "((x, y, radius, col, dotCount, angleStep, Suc i, plot_dot x y radius col angleStep i c),
              (x, y, radius, col, dotCount, angleStep, i, c))
             \<in> measure (\<lambda>(x, y, radius, col, dotCount, angleStep, i, c). nat \<lceil>dotCount\<rceil> - i)"
    by simp
qed

declare dotted_loop.simps [simp del]

definition drawCircle :: "real \<Rightarrow> real \<Rightarrow> real \<Rightarrow> circle_opts \<Rightarrow> ctx \<Rightarrow> ctx" where
  "drawCircle x y radius options c0 =
     (let col = (case co_color options of None \<Rightarrow> ''#ff00ff'' | Some v \<Rightarrow> v);
          lw = (case co_lineWidth options of None \<Rightarrow> 2 | Some v \<Rightarrow> v);
          dotted = (case co_dotted options of None \<Rightarrow> False | Some v \<Rightarrow> v);
          dotCount = (case co_dotCount options of None \<Rightarrow> 120 | Some v \<Rightarrow> v);
          c = ctx_save c0;
          c = set_strokeStyle (Color col) c;
          c = set_lineWidth lw c;
          c = (if dotted
               then (let angleStep = (pi * 2) / dotCount
                     in dotted_loop x y radius col dotCount angleStep 0 c)
               else (let c = ctx_beginPath c;
                         c = ctx_arc x y radius 0 (pi * 2) False c
                     in ctx_stroke c))
      in ctx_restore c)"

definition mandala_render :: "host \<Rightarrow> host" where
  "mandala_render h0 =
     (let (x, y) = center h0;
          h = with_ctx (ctx_clearRect 0 0 (real_of_int (width (canvas h0)))
                          (real_of_int (height (canvas h0)))) h0;
          h = with_ctx (drawGlowingRing x y 170 60 ''#ff00ff'') h;
          h = with_ctx (drawCircle x y 200
                \<lparr>co_color = Some ''#ff66ff'', co_lineWidth = Some 4,
                 co_dotted = None, co_dotCount = None\<rparr>) h;
          h = with_ctx (drawCircle x y 230
                \<lparr>co_color = Some ''#ff00ff'', co_lineWidth = None,
                 co_dotted = Some True, co_dotCount = Some 160\<rparr>) h
      in snd (requestAnimationFrame MandalaRender h))"

text \<open>
  The effect of \<open>MandalaBase\<close>: it returns early, with nothing done and no cleanup, when the
  canvas or its context is missing; otherwise it sizes the canvas, listens to resize
  events, renders the first frame and returns its cleanup.
\<close>

definition mandala_effect :: "host \<Rightarrow> host \<times> cleanup option" where
  "mandala_effect h0 =
     (if \<not> canvas_attached h0 then (h0, None)
      else case getContext (canvas h0) of
        None \<Rightarrow> (h0, None)
      | Some ctx0 \<Rightarrow>
          (let h = mandala_resize h0;
               h = addEventListener MandalaResize h;
               h = mandala_render h
           in (h, Some MandalaCleanup)))"

definition mandala_cleanup :: "host \<Rightarrow> host" where
  "mandala_cleanup h = removeEventListener MandalaResize h"

section \<open>Ornament\<close>

record stroke_opts =
  opt_w :: "real option"
  opt_blur :: "real option"
  opt_alpha :: "real option"

text \<open>
  The options of \<open>neonStroke\<close>, each of which may be left out; \<open>no_opts\<close> is the default
  argument \<open>{}\<close>. The path procedure is a closure over the context: a function from
  contexts to contexts.
\<close>

definition no_opts :: stroke_opts where
  "no_opts = \<lparr>opt_w = None, opt_blur = None, opt_alpha = None\<rparr>"

definition neonStroke :: "props \<Rightarrow> (ctx \<Rightarrow> ctx) \<Rightarrow> stroke_opts \<Rightarrow> ctx \<Rightarrow> ctx" where
  "neonStroke p path opts c0 =
     (let w = (case opt_w opts of None \<Rightarrow> 2.2 | Some v \<Rightarrow> v);
          blur = (case opt_blur opts of None \<Rightarrow> glow p | Some v \<Rightarrow> v);
          alpha = (case opt_alpha opts of None \<Rightarrow> 1 | Some v \<Rightarrow> v);
          c = ctx_save c0;
          c = set_lineJoin ''round'' c;
          c = set_lineCap ''round'' c;
          c = set_globalAlpha alpha c;
          c = set_shadowColor (color p) c;
          c = set_shadowBlur blur c;
          c = set_strokeStyle (Color (color p)) c;
          c = set_lineWidth (w * 2.6) c;
          c = path c;
          c = ctx_stroke c;
          c = set_shadowBlur 0 c;
          c = set_strokeStyle (Color (color p)) c;
          c = set_lineWidth w c;
          c = path c;
          c = ctx_stroke c
      in ctx_restore c)"

text \<open>
  \<open>resizeCanvas\<close>: the pixel ratio is \<open>window.devicePixelRatio || 1\<close>, so a ratio of zero
  (the falsy number) is replaced by 1. The backing size is \<open>Math.ceil(size * dpr)\<close>, the
  ceiling of the product as a double. The transform is set only when the canvas has a
  context.
\<close>

definition resizeCanvas :: "props \<Rightarrow> real \<Rightarrow> canvas \<Rightarrow> canvas" where
  "resizeCanvas p devicePixelRatio0 cv0 =
     (let dpr = (if devicePixelRatio0 = 0 then 1 else devicePixelRatio0);
          cv = cv0\<lparr>width := \<lceil>js_times (size_px p) dpr\<rceil>\<rparr>;
          cv = cv\<lparr>height := \<lceil>js_times (size_px p) dpr\<rceil>\<rparr>;
          cv = cv\<lparr>style_width := Some (Px (size_px p))\<rparr>;
          cv = cv\<lparr>style_height := Some (Px (size_px p))\<rparr>
      in case getContext cv of
           None \<Rightarrow> cv
         | Some c \<Rightarrow> cv\<lparr>ctx2d := ctx_setTransform dpr 0 0 dpr 0 0 c\<rparr>)"

text \<open>One petal of the crown: the body of the loop over \<open>i < crownCount\<close>.\<close>

definition crown_petal :: "nat \<Rightarrow> ctx \<Rightarrow> ctx" where
  "crown_petal i c0 =
     (let crownRadius = 36;
          crownCount = 7;
          a = (- pi / 2) + (real i - (crownCount - 1) / 2) * (pi / 10);
          tipX = cos a * (crownRadius + 6);
          tipY = sin a * (crownRadius + 6) - 14;
          baseLeftX = cos (a - 0.12) * crownRadius;
          baseLeftY = sin (a - 0.12) * crownRadius - 8;
          baseRightX = cos (a + 0.12) * crownRadius;
          baseRightY = sin (a + 0.12) * crownRadius - 8;
          c = ctx_moveTo baseLeftX baseLeftY c0;
          c = ctx_quadraticCurveTo (tipX * 0.9) (tipY * 0.9) tipX tipY c
      in ctx_quadraticCurveTo (tipX * 0.95) (tipY * 0.95) baseRightX baseRightY c)"

text \<open>The path procedures that \<open>drawOrnamentAt\<close> hands to \<open>neonStroke\<close>, in order.\<close>

definition crown_path :: "ctx \<Rightarrow> ctx" where
  "crown_path c = ctx_stroke c"

definition oval_path :: "ctx \<Rightarrow> ctx" where
  "oval_path c0 = (let c = ctx_beginPath c0 in ctx_ellipse 0 (- 2) 46 64 0 0 (pi * 2) c)"

definition rod_path :: "ctx \<Rightarrow> ctx" where
  "rod_path c0 =
     (let c = ctx_beginPath c0;
          c = ctx_moveTo 0 (- 72) c;
          c = ctx_lineTo 0 (- 12) c;
          c = ctx_moveTo 0 8 c
      in ctx_lineTo 0 52 c)"

definition circlet_path :: "ctx \<Rightarrow> ctx" where
  "circlet_path c0 =
     (let c = ctx_beginPath c0;
          c = ctx_moveTo (- 18) 6 c;
          c = ctx_quadraticCurveTo 0 (- 2) 18 6 c;
          c = ctx_moveTo 0 8 c
      in ctx_arc 0 8 12 0 (pi * 2) False c)"

definition pendant_path :: "ctx \<Rightarrow> ctx" where
  "pendant_path c0 =
     (let c = ctx_beginPath c0;
          c = ctx_ellipse 0 38 14 10 0 0 (pi * 2) c;
          c = ctx_ellipse 0 56 10 7 0 0 (pi * 2) c;
          c = ctx_moveTo 0 66 c;
          c = ctx_bezierCurveTo 6 76 8 86 0 92 c
      in ctx_bezierCurveTo (- 8) 86 (- 6) 76 0 66 c)"

definition drawOrnamentAt :: "props \<Rightarrow> real \<Rightarrow> ctx \<Rightarrow> ctx" where
  "drawOrnamentAt p scale c0 =
     (let c = ctx_save c0;
          c = ctx_scale scale scale c;
          c = ctx_beginPath c;
          c = fold crown_petal [0 ..< 7] c;
          c = neonStroke p crown_path \<lparr>opt_w = Some 2.2, opt_blur = None, opt_alpha = None\<rparr> c;
          c = neonStroke p oval_path
                \<lparr>opt_w = Some 4, opt_blur = Some (glow p * 1.02), opt_alpha = None\<rparr> c;
          c = neonStroke p rod_path
                \<lparr>opt_w = Some 3.2, opt_blur = Some (glow p * 0.9), opt_alpha = None\<rparr> c;
          c = neonStroke p circlet_path \<lparr>opt_w = Some 2.0, opt_blur = None, opt_alpha = None\<rparr> c;
          c = neonStroke p pendant_path \<lparr>opt_w = Some 2.0, opt_blur = None, opt_alpha = None\<rparr> c;
          c = set_fillStyle (Color (color p)) c;
          c = set_globalAlpha 0.9 c;
          c = ctx_beginPath c;
          c = ctx_arc 0 (- 18) 2.6 0 (pi * 2) False c;
          c = ctx_fill c;
          c = ctx_beginPath c;
          c = ctx_arc 0 34 2.2 0 (pi * 2) False c;
          c = ctx_fill c
      in ctx_restore c)"

text \<open>
  The frame callback \<open>frame\<close>. \<open>now\<close> is the timestamp the host passes to the callback; the
  source reads no other clock. Its constants \<open>pulseFactor\<close>, \<open>scale\<close> and the gradient \<open>g\<close>
  are the functions \<open>pulseFactor\<close>, \<open>frame_scale\<close> and \<open>halo_gradient\<close>; its drawing calls,
  in the order of the source, are \<open>frame_draw\<close>.
\<close>

definition pulseFactor :: "props \<Rightarrow> real \<Rightarrow> real" where
  "pulseFactor p now = (if pulse p then 0.965 + 0.035 * sin (now / 250) else 1.0)"

definition frame_scale :: "props \<Rightarrow> real \<Rightarrow> real" where
  "frame_scale p now = (let baseDesignHeight = 160 in (size_px p / baseDesignHeight) * pulseFactor p now)"

definition halo_gradient :: "props \<Rightarrow> gradient" where
  "halo_gradient p =
     (let g = createRadialGradient 0 (- 8) 6 0 (- 8) (max 80 (size_px p * 0.7));
          g = addColorStop 0 (color p @ ''22'') g
      in addColorStop 1 ''rgba(0,0,0,0)'' g)"

definition frame_draw :: "props \<Rightarrow> real \<Rightarrow> int \<Rightarrow> int \<Rightarrow> ctx \<Rightarrow> ctx" where
  "frame_draw p now w h c0 =
     (let c = ctx_clearRect 0 0 (real_of_int w) (real_of_int h) c0;
          c = ctx_save c;
          cssSize = size_px p;
          c = ctx_translate (cssSize / 2) (cssSize / 2 - 6) c;
          c = ctx_rotate (rotation p) c;
          scale = frame_scale p now;
          c = set_fillStyle (Gradient (halo_gradient p)) c;
          c = ctx_beginPath c;
          c = ctx_ellipse 0 (- 8) (72 * scale) (98 * scale) 0 0 (pi * 2) c;
          c = ctx_fill c;
          c = drawOrnamentAt p scale c
      in ctx_restore c)"

definition frame :: "props \<Rightarrow> real \<Rightarrow> host \<Rightarrow> host" where
  "frame p now h0 =
     (let h = h0\<lparr>tRef := now / 1000\<rparr>;
          h = with_ctx (frame_draw p now (width (canvas h)) (height (canvas h))) h;
          (k, h) = requestAnimationFrame (OrnamentFrame p) h
      in h\<lparr>rafRef := Some k\<rparr>)"

definition onResize :: "props \<Rightarrow> host \<Rightarrow> host" where
  "onResize p h = h\<lparr>canvas := resizeCanvas p (devicePixelRatio h) (canvas h)\<rparr>"

definition ornament_effect :: "props \<Rightarrow> host \<Rightarrow> host \<times> cleanup option" where
  "ornament_effect p h0 =
     (if \<not> canvas_attached h0 then (h0, None)
      else case getContext (canvas h0) of
        None \<Rightarrow> (h0, None)
      | Some ctx0 \<Rightarrow>
          (let h = h0\<lparr>canvas := resizeCanvas p (devicePixelRatio h0) (canvas h0)\<rparr>;
               (k, h) = requestAnimationFrame (OrnamentFrame p) h;
               h = h\<lparr>rafRef := Some k\<rparr>;
               h = addEventListener (OrnamentResize p) h
           in (h, Some (OrnamentCleanup p))))"

definition ornament_cleanup :: "props \<Rightarrow> host \<Rightarrow> host" where
  "ornament_cleanup p h0 =
     (let h = (case rafRef h0 of
                 None \<Rightarrow> h0
               | Some k \<Rightarrow> if k \<noteq> 0 then cancelAnimationFrame k h0 else h0)
      in removeEventListener (OrnamentResize p) h)"

section \<open>What the host does with the registered closures\<close>

fun run_callback :: "real \<Rightarrow> callback \<Rightarrow> host \<Rightarrow> host" where
  "run_callback now MandalaRender h = mandala_render h"
| "run_callback now (OrnamentFrame p) h = frame p now h"

fun run_listener :: "listener \<Rightarrow> host \<Rightarrow> host" where
  "run_listener MandalaResize h = mandala_resize h"
| "run_listener (OrnamentResize p) h = onResize p h"

fun run_cleanup :: "cleanup \<Rightarrow> host \<Rightarrow> host" where
  "run_cleanup MandalaCleanup h = mandala_cleanup h"
| "run_cleanup (OrnamentCleanup p) h = ornament_cleanup p h"

text \<open>
  An animation frame at timestamp \<open>now\<close> runs the callbacks that were pending when it began;
  callbacks they request wait for the next frame. A resize event runs the attached
  listeners. Unmounting runs the cleanup the effect returned, if any.
\<close>

definition animation_frame :: "real \<Rightarrow> host \<Rightarrow> host" where
  "animation_frame now h =
     fold (\<lambda>(k, cb). run_callback now cb) (raf_pending h) (h\<lparr>raf_pending := []\<rparr>)"

definition dispatch_resize :: "host \<Rightarrow> host" where
  "dispatch_resize h = fold run_listener (resize_listeners h) h"

definition unmount :: "cleanup option \<Rightarrow> host \<Rightarrow> host" where
  "unmount cl h = (case cl of None \<Rightarrow> h | Some f \<Rightarrow> run_cleanup f h)"

datatype event = AnimationFrame real | Resize | WindowSize int int

fun host_step :: "event \<Rightarrow> host \<Rightarrow> host" where
  "host_step (AnimationFrame now) h = animation_frame now h"
| "host_step Resize h = dispatch_resize h"
| "host_step (WindowSize w v) h = h\<lparr>innerWidth := w, innerHeight := v\<rparr>"

definition run_events :: "event list \<Rightarrow> host \<Rightarrow> host" where
  "run_events evs h = fold host_step evs h"


section \<open>Reference values used in the statements\<close>

text \<open>
  A canvas as the host creates it (300 by 150 pixels, no CSS size, a fresh context) and a
  window of 800 by 600 CSS pixels on a display of pixel ratio 2, before any component is
  mounted.
\<close>

definition blank_canvas :: canvas where
  "blank_canvas =
     \<lparr>width = 300, height = 150, style_width = None, style_height = None,
      has_context = True, ctx2d = fresh_ctx\<rparr>"

definition initial_host :: host where
  "initial_host =
     \<lparr>innerWidth = 800, innerHeight = 600, devicePixelRatio = 2, canvas_attached = True,
      canvas = blank_canvas, resize_listeners = [], raf_pending = [], raf_last = 0,
      rafRef = None, tRef = 0\<rparr>"

fun is_stroke :: "draw_event \<Rightarrow> bool" where
  "is_stroke (Stroke sp s) = True"
| "is_stroke (Fill sp s) = False"
| "is_stroke (ClearRect x y w h) = False"

text \<open>
  The dot the spec describes: a filled disc of radius 2 whose centre lies at angle
  \<open>i * angleStep\<close> on the circle of the given radius around \<open>(x, y)\<close>.
\<close>

definition dot_event :: "real \<Rightarrow> real \<Rightarrow> real \<Rightarrow> real \<Rightarrow> dstate \<Rightarrow> nat \<Rightarrow> draw_event" where
  "dot_event x y radius angleStep s i =
     Fill [Arc (x + cos (real i * angleStep) * radius) (y + sin (real i * angleStep) * radius)
             2 0 (pi * 2) False] s"

text \<open>
  The pulse factor in the spec's words: \<open>t\<close> is the time elapsed since the loop started,
  that is \<open>now - started\<close> when the loop was started at timestamp \<open>started\<close>.
\<close>

definition spec_pulseFactor :: "props \<Rightarrow> real \<Rightarrow> real \<Rightarrow> real" where
  "spec_pulseFactor p started now =
     (if pulse p then 0.965 + 0.035 * sin ((now - started) / 250) else 1)"

text \<open>
  What the spec says one frame of \<open>MandalaBase\<close> draws on a surface of \<open>w\<close> by \<open>v\<close> pixels whose
  context has drawing state \<open>s\<close>: the clear, the glow ring, the solid ring, the dotted ring.
\<close>

definition spec_mandala_frame :: "int \<Rightarrow> int \<Rightarrow> dstate \<Rightarrow> draw_event list" where
  "spec_mandala_frame w v s =
     (let x = real_of_int w / 2; y = real_of_int v / 2
      in [ClearRect 0 0 (real_of_int w) (real_of_int v),
          Fill [Arc x y 200 0 (pi * 2) False, Arc x y 140 0 (pi * 2) True, ClosePath]
            (s\<lparr>globalCompositeOperation := ''lighter'',
               fillStyle := Gradient
                 \<lparr>grad_x0 = x, grad_y0 = y, grad_r0 = 140, grad_x1 = x, grad_y1 = y, grad_r1 = 200,
                  stops = [(0, ''transparent''), (0.4, ''#ff00ff80''), (0.5, ''#ff00ff''),
                           (0.6, ''#ff00ff80''), (1, ''transparent'')]\<rparr>\<rparr>),
          Stroke [Arc x y 200 0 (pi * 2) False]
            (s\<lparr>strokeStyle := Color ''#ff66ff'', lineWidth := 4\<rparr>)]
         @ map (dot_event x y 230 (pi * 2 / 160)
                  (s\<lparr>strokeStyle := Color ''#ff00ff'', lineWidth := 2,
                     fillStyle := Color ''#ff00ff''\<rparr>))
             [0 ..< 160])"

text \<open>
  How a browser reads the colour strings of the source: the hexadecimal notations of CSS,
  \<open>#rgb\<close>, \<open>#rgba\<close>, \<open>#rrggbb\<close> and \<open>#rrggbbaa\<close>, as red, green, blue and alpha, each out of
  255. A string in no such notation (a colour name, or no colour at all) reads as \<open>None\<close>
  here. \<open>is_rrggbb\<close> holds of the six-digit notation, the one the components use.
\<close>

definition hex_digit :: "char \<Rightarrow> nat option" where
  "hex_digit ch =
     (let n = (of_char ch :: nat)
      in if 48 \<le> n \<and> n \<le> 57 then Some (n - 48)
         else if 97 \<le> n \<and> n \<le> 102 then Some (n - 87)
         else if 65 \<le> n \<and> n \<le> 70 then Some (n - 55)
         else None)"

fun hex_channels :: "nat list \<Rightarrow> (nat \<times> nat \<times> nat \<times> nat) option" where
  "hex_channels [r, g, b] = Some (17 * r, 17 * g, 17 * b, 255)"
| "hex_channels [r, g, b, a] = Some (17 * r, 17 * g, 17 * b, 17 * a)"
| "hex_channels [r1, r2, g1, g2, b1, b2] =
     Some (16 * r1 + r2, 16 * g1 + g2, 16 * b1 + b2, 255)"
| "hex_channels [r1, r2, g1, g2, b1, b2, a1, a2] =
     Some (16 * r1 + r2, 16 * g1 + g2, 16 * b1 + b2, 16 * a1 + a2)"
| "hex_channels vs = None"

definition css_hex_color :: "string \<Rightarrow> (nat \<times> nat \<times> nat \<times> nat) option" where
  "css_hex_color s =
     (case s of
        [] \<Rightarrow> None
      | ch # ds \<Rightarrow>
          if ch = CHR ''#''
          then (case those (map hex_digit ds) of None \<Rightarrow> None | Some vs \<Rightarrow> hex_channels vs)
          else None)"

definition is_rrggbb :: "string \<Rightarrow> bool" where
  "is_rrggbb col =
     (case col of
        [] \<Rightarrow> False
      | ch # ds \<Rightarrow>
          ch = CHR ''#'' \<and> length ds = 6 \<and> list_all (\<lambda>d. hex_digit d \<noteq> None) ds)"

text \<open>
  The spec's words for the stops at 0.4 and 0.6: the stop is the (opaque) colour \<open>col\<close> at
  about 50 percent alpha, that is, it reads as the red, green and blue of \<open>col\<close> with an
  alpha within one hundredth of one half.
\<close>

definition spec_half_alpha :: "string \<Rightarrow> string \<Rightarrow> bool" where
  "spec_half_alpha col stop =
     (case (css_hex_color col, css_hex_color stop) of
        (Some (r, g, b, a), Some (r', g', b', a')) \<Rightarrow>
          r' = r \<and> g' = g \<and> b' = b \<and> a = 255 \<and> \<bar>real a' / 255 - 1 / 2\<bar> \<le> 1 / 100
      | _ \<Rightarrow> False)"

text \<open>The double nearest to 1.1, a pixel ratio of zoomed desktop browsers.\<close>

definition double_1_1 :: real where
  "double_1_1 = 4953959590107546 / 2 ^ 52"

text \<open>The default configuration with pulsing switched on.\<close>

definition pulsing :: props where
  "pulsing = default_props\<lparr>pulse := True\<rparr>"

text \<open>
  Two conditions on the host used to follow an \<open>Ornament\<close> through its life: its loop is
  running (exactly its frame callback is pending, under the handle kept in \<open>rafRef\<close>, and
  exactly its resize listener is attached), and nothing is registered at all.
\<close>

definition ornament_running :: "props \<Rightarrow> host \<Rightarrow> bool" where
  "ornament_running p h \<longleftrightarrow>
     resize_listeners h = [OrnamentResize p]
     \<and> (case rafRef h of
           None \<Rightarrow> False
         | Some k \<Rightarrow> k \<noteq> 0 \<and> raf_pending h = [(k, OrnamentFrame p)])"

definition quiet :: "host \<Rightarrow> bool" where
  "quiet h \<longleftrightarrow> raf_pending h = [] \<and> resize_listeners h = []"

section \<open>Basic facts about the context operations\<close>

lemmas ctx_ops =
  ctx_save_def ctx_restore_def set_strokeStyle_def set_fillStyle_def set_lineWidth_def
  set_shadowColor_def set_shadowBlur_def set_globalAlpha_def set_lineJoin_def set_lineCap_def
  set_globalCompositeOperation_def ctx_setTransform_def ctx_translate_def ctx_rotate_def
  ctx_scale_def ctx_beginPath_def add_seg_def ctx_moveTo_def ctx_lineTo_def
  ctx_quadraticCurveTo_def ctx_bezierCurveTo_def ctx_arc_def ctx_ellipse_def
  ctx_closePath_def ctx_stroke_def ctx_fill_def ctx_clearRect_def


text \<open>
  What each operation does to each part of the context. The proofs below rewrite with
  these facts rather than unfolding the operations.
\<close>

lemma ctx_saved:
  "saved (ctx_save c) = st c # saved c"
  "saved (ctx_restore c) = tl (saved c)"
  "saved (set_strokeStyle ss c) = saved c"
  "saved (set_fillStyle fs c) = saved c"
  "saved (set_lineWidth lw c) = saved c"
  "saved (set_shadowColor sc c) = saved c"
  "saved (set_shadowBlur sb c) = saved c"
  "saved (set_globalAlpha ga c) = saved c"
  "saved (set_lineJoin lj c) = saved c"
  "saved (set_lineCap lc c) = saved c"
  "saved (set_globalCompositeOperation gco c) = saved c"
  "saved (ctx_setTransform a b c' d e f c) = saved c"
  "saved (ctx_translate tx ty c) = saved c"
  "saved (ctx_rotate r c) = saved c"
  "saved (ctx_scale sx sy c) = saved c"
  "saved (ctx_beginPath c) = saved c"
  "saved (add_seg sg c) = saved c"
  "saved (ctx_moveTo x y c) = saved c"
  "saved (ctx_lineTo x y c) = saved c"
  "saved (ctx_quadraticCurveTo cx cy x y c) = saved c"
  "saved (ctx_bezierCurveTo c1x c1y c2x c2y x y c) = saved c"
  "saved (ctx_arc x y r a0 a1 ccw c) = saved c"
  "saved (ctx_ellipse x y rx ry rot a0 a1 c) = saved c"
  "saved (ctx_closePath c) = saved c"
  "saved (ctx_stroke c) = saved c"
  "saved (ctx_fill c) = saved c"
  "saved (ctx_clearRect x y w h c) = saved c"
  by (simp_all add: ctx_ops split: list.split prod.split)

lemma ctx_drawn:
  "drawn (ctx_save c) = drawn c"
  "drawn (ctx_restore c) = drawn c"
  "drawn (set_strokeStyle ss c) = drawn c"
  "drawn (set_fillStyle fs c) = drawn c"
  "drawn (set_lineWidth lw c) = drawn c"
  "drawn (set_shadowColor sc c) = drawn c"
  "drawn (set_shadowBlur sb c) = drawn c"
  "drawn (set_globalAlpha ga c) = drawn c"
  "drawn (set_lineJoin lj c) = drawn c"
  "drawn (set_lineCap lc c) = drawn c"
  "drawn (set_globalCompositeOperation gco c) = drawn c"
  "drawn (ctx_setTransform a b c' d e f c) = drawn c"
  "drawn (ctx_translate tx ty c) = drawn c"
  "drawn (ctx_rotate r c) = drawn c"
  "drawn (ctx_scale sx sy c) = drawn c"
  "drawn (ctx_beginPath c) = drawn c"
  "drawn (add_seg sg c) = drawn c"
  "drawn (ctx_moveTo x y c) = drawn c"
  "drawn (ctx_lineTo x y c) = drawn c"
  "drawn (ctx_quadraticCurveTo cx cy x y c) = drawn c"
  "drawn (ctx_bezierCurveTo c1x c1y c2x c2y x y c) = drawn c"
  "drawn (ctx_arc x y r a0 a1 ccw c) = drawn c"
  "drawn (ctx_ellipse x y rx ry rot a0 a1 c) = drawn c"
  "drawn (ctx_closePath c) = drawn c"
  "drawn (ctx_stroke c) = drawn c @ [Stroke (cur_path c) (st c)]"
  "drawn (ctx_fill c) = drawn c @ [Fill (cur_path c) (st c)]"
  "drawn (ctx_clearRect x y w h c) = drawn c @ [ClearRect x y w h]"
  by (simp_all add: ctx_ops split: list.split prod.split)

lemma ctx_cur_path:
  "cur_path (ctx_save c) = cur_path c"
  "cur_path (ctx_restore c) = cur_path c"
  "cur_path (set_strokeStyle ss c) = cur_path c"
  "cur_path (set_fillStyle fs c) = cur_path c"
  "cur_path (set_lineWidth lw c) = cur_path c"
  "cur_path (set_shadowColor sc c) = cur_path c"
  "cur_path (set_shadowBlur sb c) = cur_path c"
  "cur_path (set_globalAlpha ga c) = cur_path c"
  "cur_path (set_lineJoin lj c) = cur_path c"
  "cur_path (set_lineCap lc c) = cur_path c"
  "cur_path (set_globalCompositeOperation gco c) = cur_path c"
  "cur_path (ctx_setTransform a b c' d e f c) = cur_path c"
  "cur_path (ctx_translate tx ty c) = cur_path c"
  "cur_path (ctx_rotate r c) = cur_path c"
  "cur_path (ctx_scale sx sy c) = cur_path c"
  "cur_path (ctx_beginPath c) = []"
  "cur_path (add_seg sg c) = cur_path c @ [sg]"
  "cur_path (ctx_moveTo x y c) = cur_path c @ [MoveTo x y]"
  "cur_path (ctx_lineTo x y c) = cur_path c @ [LineTo x y]"
  "cur_path (ctx_quadraticCurveTo cx cy x y c) = cur_path c @ [QuadraticCurveTo cx cy x y]"
  "cur_path (ctx_bezierCurveTo c1x c1y c2x c2y x y c) = cur_path c @ [BezierCurveTo c1x c1y c2x c2y x y]"
  "cur_path (ctx_arc x y r a0 a1 ccw c) = cur_path c @ [Arc x y r a0 a1 ccw]"
  "cur_path (ctx_ellipse x y rx ry rot a0 a1 c) = cur_path c @ [Ellipse x y rx ry rot a0 a1]"
  "cur_path (ctx_closePath c) = cur_path c @ [ClosePath]"
  "cur_path (ctx_stroke c) = cur_path c"
  "cur_path (ctx_fill c) = cur_path c"
  "cur_path (ctx_clearRect x y w h c) = cur_path c"
  by (simp_all add: ctx_ops split: list.split prod.split)

lemma ctx_st:
  "st (ctx_save c) = st c"
  "st (ctx_restore c) = (case saved c of [] \<Rightarrow> st c | s # rest \<Rightarrow> s)"
  "st (set_strokeStyle ss c) = (st c)\<lparr>strokeStyle := ss\<rparr>"
  "st (set_fillStyle fs c) = (st c)\<lparr>fillStyle := fs\<rparr>"
  "st (set_lineWidth lw c) = (st c)\<lparr>lineWidth := lw\<rparr>"
  "st (set_shadowColor sc c) = (st c)\<lparr>shadowColor := sc\<rparr>"
  "st (set_shadowBlur sb c) = (st c)\<lparr>shadowBlur := sb\<rparr>"
  "st (set_globalAlpha ga c) = (st c)\<lparr>globalAlpha := ga\<rparr>"
  "st (set_lineJoin lj c) = (st c)\<lparr>lineJoin := lj\<rparr>"
  "st (set_lineCap lc c) = (st c)\<lparr>lineCap := lc\<rparr>"
  "st (set_globalCompositeOperation gco c) = (st c)\<lparr>globalCompositeOperation := gco\<rparr>"
  "st (ctx_setTransform a b c' d e f c) = (st c)\<lparr>transform := (a, b, c', d, e, f)\<rparr>"
  "st (ctx_beginPath c) = st c"
  "st (add_seg sg c) = st c"
  "st (ctx_moveTo x y c) = st c"
  "st (ctx_lineTo x y c) = st c"
  "st (ctx_quadraticCurveTo cx cy x y c) = st c"
  "st (ctx_bezierCurveTo c1x c1y c2x c2y x y c) = st c"
  "st (ctx_arc x y r a0 a1 ccw c) = st c"
  "st (ctx_ellipse x y rx ry rot a0 a1 c) = st c"
  "st (ctx_closePath c) = st c"
  "st (ctx_stroke c) = st c"
  "st (ctx_fill c) = st c"
  "st (ctx_clearRect x y w h c) = st c"
  by (simp_all add: ctx_ops split: list.split prod.split)


lemma path_procedures_keep_stack:
  "saved (crown_path c) = saved c"
  "saved (oval_path c) = saved c"
  "saved (rod_path c) = saved c"
  "saved (circlet_path c) = saved c"
  "saved (pendant_path c) = saved c"
  by (simp_all add: crown_path_def oval_path_def rod_path_def circlet_path_def
        pendant_path_def Let_def ctx_saved)

lemma path_builders_only_build:
  "st (oval_path c) = st c \<and> drawn (oval_path c) = drawn c"
  "st (rod_path c) = st c \<and> drawn (rod_path c) = drawn c"
  "st (circlet_path c) = st c \<and> drawn (circlet_path c) = drawn c"
  "st (pendant_path c) = st c \<and> drawn (pendant_path c) = drawn c"
  by (simp_all add: oval_path_def rod_path_def circlet_path_def pendant_path_def Let_def
        ctx_st ctx_drawn)

lemma path_procedures_drawn:
  "drawn (crown_path c) = drawn c @ [Stroke (cur_path c) (st c)]"
  "drawn (oval_path c) = drawn c"
  "drawn (rod_path c) = drawn c"
  "drawn (circlet_path c) = drawn c"
  "drawn (pendant_path c) = drawn c"
  by (simp_all add: crown_path_def oval_path_def rod_path_def circlet_path_def
        pendant_path_def Let_def ctx_drawn)

lemma crown_petal_fields:
  "drawn (crown_petal i c) = drawn c"
  "st (crown_petal i c) = st c"
  "saved (crown_petal i c) = saved c"
  by (simp_all add: crown_petal_def Let_def ctx_drawn ctx_st ctx_saved)

lemma fold_crown_petal_fields:
  "drawn (fold crown_petal js c) = drawn c \<and> st (fold crown_petal js c) = st c
   \<and> saved (fold crown_petal js c) = saved c"
  by (induction js arbitrary: c) (simp_all add: crown_petal_fields)

lemma neonStroke_drawn:
  "drawn (neonStroke p path opts c) =
     (let w = (case opt_w opts of None \<Rightarrow> 2.2 | Some v \<Rightarrow> v);
          blur = (case opt_blur opts of None \<Rightarrow> glow p | Some v \<Rightarrow> v);
          alpha = (case opt_alpha opts of None \<Rightarrow> 1 | Some v \<Rightarrow> v);
          c1 = path (set_lineWidth (w * 2.6) (set_strokeStyle (Color (color p))
                 (set_shadowBlur blur (set_shadowColor (color p) (set_globalAlpha alpha
                 (set_lineCap ''round'' (set_lineJoin ''round'' (ctx_save c))))))));
          c2 = path (set_lineWidth w (set_strokeStyle (Color (color p))
                 (set_shadowBlur 0 (ctx_stroke c1))))
      in drawn c2 @ [Stroke (cur_path c2) (st c2)])"
  by (simp add: neonStroke_def Let_def ctx_drawn)

section \<open>The neon stroke\<close>

text \<open>
  C10. Every call of \<open>neonStroke\<close> leaves the drawing state as it found it: \<open>strokeStyle\<close>,
  \<open>lineWidth\<close>, \<open>shadowColor\<close>, \<open>shadowBlur\<close>, \<open>globalAlpha\<close>, \<open>lineJoin\<close> and \<open>lineCap\<close> (and
  every other part of the state that \<open>save\<close> records) have the values they had before the
  call, and the stack of saved states is as deep as before. The path procedure runs
  between the \<open>save\<close> and the \<open>restore\<close>; it is assumed to leave the stack of saved states
  alone, as each of the five procedures that \<open>drawOrnamentAt\<close> passes does
  (\<open>path_procedures_keep_stack\<close>).
\<close>

theorem neonStroke_restores_state:
  assumes "\<And>c. saved (path c) = saved c"
  shows "st (neonStroke p path opts c) = st c
       \<and> strokeStyle (st (neonStroke p path opts c)) = strokeStyle (st c)
       \<and> lineWidth (st (neonStroke p path opts c)) = lineWidth (st c)
       \<and> shadowColor (st (neonStroke p path opts c)) = shadowColor (st c)
       \<and> shadowBlur (st (neonStroke p path opts c)) = shadowBlur (st c)
       \<and> globalAlpha (st (neonStroke p path opts c)) = globalAlpha (st c)
       \<and> lineJoin (st (neonStroke p path opts c)) = lineJoin (st c)
       \<and> lineCap (st (neonStroke p path opts c)) = lineCap (st c)
       \<and> saved (neonStroke p path opts c) = saved c"
proof -
  have "st (neonStroke p path opts c) = st c \<and> saved (neonStroke p path opts c) = saved c"
    using assms by (simp add: neonStroke_def Let_def ctx_saved ctx_st)
  then show ?thesis by simp
qed

theorem neonStroke_restores_state_witness:
  "st (neonStroke default_props rod_path
         \<lparr>opt_w = Some 3.2, opt_blur = Some (glow default_props * 0.9), opt_alpha = None\<rparr>
         fresh_ctx) = default_dstate
   \<and> saved (neonStroke default_props rod_path
         \<lparr>opt_w = Some 3.2, opt_blur = Some (glow default_props * 0.9), opt_alpha = None\<rparr>
         fresh_ctx) = []"
  using neonStroke_restores_state [where path = rod_path and p = default_props
      and opts = "\<lparr>opt_w = Some 3.2, opt_blur = Some (glow default_props * 0.9), opt_alpha = None\<rparr>"
      and c = fresh_ctx]
  by (simp add: path_procedures_keep_stack fresh_ctx_def)

text \<open>
  C8, as the code has it. \<open>neonStroke\<close> runs the path procedure twice and issues one stroke
  of its own after each run: the first under line width \<open>w * 2.6\<close>, shadow blur \<open>blur\<close>,
  shadow colour and stroke colour \<open>color\<close>, round joins and caps and alpha \<open>alpha\<close>; the second
  under line width \<open>w\<close> and shadow blur 0, the rest unchanged; the defaults are \<open>w = 2.2\<close>,
  \<open>blur = glow\<close>, \<open>alpha = 1\<close>. When the path procedure only builds a path (it leaves the
  drawing state, the stack and the drawing events alone), these two strokes are exactly
  what the call draws.
\<close>

theorem neonStroke_two_strokes:
  assumes "\<And>c. st (path c) = st c"
    and "\<And>c. saved (path c) = saved c"
    and "\<And>c. drawn (path c) = drawn c"
  shows "let w = (case opt_w opts of None \<Rightarrow> 2.2 | Some v \<Rightarrow> v);
             blur = (case opt_blur opts of None \<Rightarrow> glow p | Some v \<Rightarrow> v);
             alpha = (case opt_alpha opts of None \<Rightarrow> 1 | Some v \<Rightarrow> v);
             s1 = (st c)\<lparr>lineJoin := ''round'', lineCap := ''round'', globalAlpha := alpha,
                     shadowColor := color p, shadowBlur := blur,
                     strokeStyle := Color (color p), lineWidth := w * 2.6\<rparr>;
             s2 = s1\<lparr>shadowBlur := 0, lineWidth := w\<rparr>;
             c1 = path (c\<lparr>saved := st c # saved c, st := s1\<rparr>);
             c2 = path (c1\<lparr>drawn := drawn c @ [Stroke (cur_path c1) s1], st := s2\<rparr>)
         in drawn (neonStroke p path opts c) =
              drawn c @ [Stroke (cur_path c1) s1, Stroke (cur_path c2) s2]"
proof -
  define w where "w = (case opt_w opts of None \<Rightarrow> 2.2 | Some v \<Rightarrow> v)"
  define blur where "blur = (case opt_blur opts of None \<Rightarrow> glow p | Some v \<Rightarrow> v)"
  define alpha :: real where "alpha = (case opt_alpha opts of None \<Rightarrow> 1 | Some v \<Rightarrow> v)"
  define s1 where
    "s1 = (st c)\<lparr>lineJoin := ''round'', lineCap := ''round'', globalAlpha := alpha,
             shadowColor := color p, shadowBlur := blur,
             strokeStyle := Color (color p), lineWidth := w * 2.6\<rparr>"
  define s2 where "s2 = s1\<lparr>shadowBlur := 0, lineWidth := w\<rparr>"
  define ca where "ca = c\<lparr>saved := st c # saved c, st := s1\<rparr>"
  define c1 where "c1 = path ca"
  define cb where "cb = c1\<lparr>drawn := drawn c @ [Stroke (cur_path c1) s1], st := s2\<rparr>"
  define c2 where "c2 = path cb"
  have first_setup:
    "set_lineWidth (w * 2.6) (set_strokeStyle (Color (color p)) (set_shadowBlur blur
       (set_shadowColor (color p) (set_globalAlpha alpha (set_lineCap ''round''
       (set_lineJoin ''round'' (ctx_save c))))))) = ca"
    by (simp add: ctx_ops ca_def s1_def)
  have st1: "st c1 = s1" and dr1: "drawn c1 = drawn c" and sv1: "saved c1 = st c # saved c"
    by (simp_all add: c1_def assms ca_def)
  have second_setup:
    "set_lineWidth w (set_strokeStyle (Color (color p)) (set_shadowBlur 0 (ctx_stroke c1))) = cb"
    by (simp add: ctx_ops cb_def st1 dr1 s2_def s1_def)
  have unfolded: "neonStroke p path opts c = ctx_restore (ctx_stroke c2)"
    by (simp only: neonStroke_def Let_def w_def [symmetric] blur_def [symmetric]
          alpha_def [symmetric] first_setup c1_def [symmetric] second_setup c2_def [symmetric])
  have "drawn (ctx_restore (ctx_stroke c2)) =
          drawn c @ [Stroke (cur_path c1) s1, Stroke (cur_path c2) s2]"
    by (simp add: ctx_drawn ctx_st c2_def assms cb_def)
  then show ?thesis
    by (simp only: unfolded Let_def w_def [symmetric] blur_def [symmetric] alpha_def [symmetric]
          s1_def [symmetric] s2_def [symmetric] ca_def [symmetric] c1_def [symmetric]
          cb_def [symmetric] c2_def [symmetric])
qed

theorem neonStroke_two_strokes_witness:
  "drawn (neonStroke default_props oval_path
            \<lparr>opt_w = Some 4, opt_blur = Some (glow default_props * 1.02), opt_alpha = None\<rparr>
            fresh_ctx) =
     [Stroke [Ellipse 0 (- 2) 46 64 0 0 (pi * 2)]
        (default_dstate\<lparr>lineJoin := ''round'', lineCap := ''round'', globalAlpha := 1,
           shadowColor := ''#ff02e6'', shadowBlur := 28 * 1.02,
           strokeStyle := Color ''#ff02e6'', lineWidth := 4 * 2.6\<rparr>),
      Stroke [Ellipse 0 (- 2) 46 64 0 0 (pi * 2)]
        (default_dstate\<lparr>lineJoin := ''round'', lineCap := ''round'', globalAlpha := 1,
           shadowColor := ''#ff02e6'', strokeStyle := Color ''#ff02e6'',
           shadowBlur := 0, lineWidth := 4\<rparr>)]"
  using neonStroke_two_strokes [where path = oval_path and p = default_props
      and opts = "\<lparr>opt_w = Some 4, opt_blur = Some (glow default_props * 1.02), opt_alpha = None\<rparr>"
      and c = fresh_ctx]
  by (simp add: Let_def fresh_ctx_def default_props_def oval_path_def
        ctx_st ctx_saved ctx_drawn ctx_cur_path)

text \<open>
  C8 as stated fails: ``for every path procedure the path is stroked exactly twice''.
  The first call in \<open>drawOrnamentAt\<close> passes \<open>() => ctx.stroke()\<close> as the path procedure,
  so each of the two passes strokes the current path twice, four strokes in all. The
  context below is the one of that call on a fresh canvas at scale 1: saved, scaled, and
  holding the seven petals of the crown as its current path.
\<close>

theorem neonStroke_crown_four_strokes:
  "length (filter is_stroke
     (drawn (neonStroke default_props crown_path
               \<lparr>opt_w = Some 2.2, opt_blur = None, opt_alpha = None\<rparr>
               (fold crown_petal [0 ..< 7] (ctx_beginPath (ctx_scale 1 1 (ctx_save fresh_ctx))))))) = 4"
  by (simp add: neonStroke_drawn path_procedures_drawn Let_def ctx_drawn
        fold_crown_petal_fields fresh_ctx_def)

section \<open>Mounting without a surface\<close>

text \<open>
  C9. When the canvas is not attached, or has no 2D context, the effect of either
  component returns the host exactly as it was, with no cleanup: nothing is drawn, no
  resize listener is added, no frame is requested, and the effect returns normally.
\<close>

theorem effects_skip_without_surface:
  assumes "\<not> canvas_attached h \<or> getContext (canvas h) = None"
  shows "mandala_effect h = (h, None) \<and> ornament_effect p h = (h, None)"
  using assms by (auto simp: mandala_effect_def ornament_effect_def)

theorem effects_skip_without_surface_witness:
  "mandala_effect (initial_host\<lparr>canvas_attached := False\<rparr>) =
     (initial_host\<lparr>canvas_attached := False\<rparr>, None)
   \<and> ornament_effect default_props (initial_host\<lparr>canvas_attached := False\<rparr>) =
     (initial_host\<lparr>canvas_attached := False\<rparr>, None)
   \<and> mandala_effect (initial_host\<lparr>canvas := blank_canvas\<lparr>has_context := False\<rparr>\<rparr>) =
     (initial_host\<lparr>canvas := blank_canvas\<lparr>has_context := False\<rparr>\<rparr>, None)
   \<and> ornament_effect default_props (initial_host\<lparr>canvas := blank_canvas\<lparr>has_context := False\<rparr>\<rparr>) =
     (initial_host\<lparr>canvas := blank_canvas\<lparr>has_context := False\<rparr>\<rparr>, None)"
  using effects_skip_without_surface
      [where h = "initial_host\<lparr>canvas_attached := False\<rparr>" and p = default_props]
    effects_skip_without_surface
      [where h = "initial_host\<lparr>canvas := blank_canvas\<lparr>has_context := False\<rparr>\<rparr>"
        and p = default_props]
  by (simp add: getContext_def)

section \<open>Sizing the Ornament surface\<close>

text \<open>
  Rounding to a double, computed: a number in \<open>[2 ^ k, 2 ^ (k + 1))\<close> is rounded on the grid
  of spacing \<open>2 ^ k / 2 ^ 52\<close>, and a whole number below \<open>2 ^ 53\<close> is a double already.
\<close>

lemma round_half_even_int: "round_half_even (real_of_int n) = n"
  by (simp add: round_half_even_def)

lemma round_double_binade:
  fixes k :: nat
  assumes lo: "2 ^ k \<le> x" and hi: "x < 2 ^ Suc k" and k: "k \<le> 52"
  shows "round_double x =
           real_of_int (round_half_even (x * 2 ^ (52 - k))) / 2 ^ (52 - k)"
proof -
  have pos: "0 < x"
    using lo by (rule less_le_trans [rotated]) simp
  have "\<lfloor>log 2 x\<rfloor> = int k"
    using lo hi pos by (simp add: floor_log_eq_powr_iff powr_realpow powr_add)
  then have e: "max \<lfloor>log 2 x\<rfloor> (- 1022) = int k"
    by simp
  have ax: "\<bar>x\<bar> = x"
    using pos by simp
  have "real_of_int (int k) - 52 = - real (52 - k)"
    using k by simp
  then have u: "2 powr (real_of_int (int k) - 52) = 1 / 2 ^ (52 - k)"
    by (simp only: powr_minus_divide powr_realpow zero_less_numeral)
  show ?thesis
    unfolding round_double_def Let_def ax e u
    using pos by simp
qed

lemma round_double_exact_nat:
  fixes n :: nat
  assumes "1 \<le> n" and "n < 2 ^ 53"
  shows "round_double (real n) = real n"
proof -
  obtain k where k: "2 ^ k \<le> n" "n < 2 ^ (k + 1)"
    using ex_power_ivl1 [of 2 n] assms(1) by auto
  have "(2::nat) ^ k < 2 ^ 53"
    using k(1) assms(2) by (rule le_less_trans)
  then have "k < 53"
    by (rule power_less_imp_less_exp [rotated]) simp
  then have k52: "k \<le> 52"
    by simp
  have lo: "(2::real) ^ k \<le> real n"
    using k(1) by (metis of_nat_le_iff of_nat_numeral of_nat_power)
  have hi: "real n < 2 ^ Suc k"
    using k(2) by (metis Suc_eq_plus1 of_nat_less_iff of_nat_numeral of_nat_power)
  have "real n * 2 ^ (52 - k) = real_of_int (int (n * 2 ^ (52 - k)))"
    by simp
  then have "round_half_even (real n * 2 ^ (52 - k)) = int (n * 2 ^ (52 - k))"
    by (simp only: round_half_even_int)
  then show ?thesis
    by (simp add: round_double_binade [OF lo hi k52])
qed

text \<open>
  C6, as the code has it. For every size \<open>S > 0\<close> and a positive
  \<open>window.devicePixelRatio\<close>, after \<open>resizeCanvas\<close> the CSS size of the surface is \<open>S\<close> by \<open>S\<close>
  pixels and the transform (when the canvas has a context) is the uniform scale by the
  pixel ratio; the backing size in each axis is the ceiling of the product
  \<open>S * devicePixelRatio\<close> as the program computes it, rounded to a double. When the exact
  product is a whole number (below \<open>2 ^ 53\<close>) the rounding changes nothing and the backing
  size is that number.
\<close>

theorem resizeCanvas_dimensions:
  assumes "0 < size_px p" and "0 < d"
  shows "let cv' = resizeCanvas p d cv
         in style_width cv' = Some (Px (size_px p)) \<and> style_height cv' = Some (Px (size_px p))
          \<and> width cv' = \<lceil>round_double (size_px p * d)\<rceil>
          \<and> height cv' = \<lceil>round_double (size_px p * d)\<rceil>
          \<and> (has_context cv \<longrightarrow> transform (st (ctx2d cv')) = (d, 0, 0, d, 0, 0))
          \<and> (\<forall>n::nat. size_px p * d = real n \<and> n < 2 ^ 53 \<longrightarrow>
                 width cv' = int n \<and> height cv' = int n)"
proof -
  have dims: "width (resizeCanvas p d cv) = \<lceil>round_double (size_px p * d)\<rceil>"
      "height (resizeCanvas p d cv) = \<lceil>round_double (size_px p * d)\<rceil>"
      "style_width (resizeCanvas p d cv) = Some (Px (size_px p))"
      "style_height (resizeCanvas p d cv) = Some (Px (size_px p))"
    using assms(2) by (simp_all add: resizeCanvas_def Let_def getContext_def js_times_def)
  have tr: "transform (st (ctx2d (resizeCanvas p d cv))) = (d, 0, 0, d, 0, 0)" if "has_context cv"
    using that assms(2) by (simp add: resizeCanvas_def Let_def getContext_def ctx_st)
  have whole: "\<lceil>round_double (size_px p * d)\<rceil> = int n"
    if "size_px p * d = real n" and "n < 2 ^ 53" for n :: nat
  proof -
    have "0 < real n" using assms that(1) by (metis mult_pos_pos)
    then have "1 \<le> n" by simp
    then have "round_double (real n) = real n"
      using that(2) by (rule round_double_exact_nat)
    then show ?thesis by (simp add: that(1))
  qed
  show ?thesis
    unfolding Let_def dims using tr whole by blast
qed

theorem resizeCanvas_dimensions_witness:
  "0 < size_px default_props \<and> (0::real) < 2 \<and> has_context blank_canvas
   \<and> size_px default_props * 2 = real (320::nat) \<and> (320::nat) < 2 ^ 53
   \<and> style_width (resizeCanvas default_props 2 blank_canvas) = Some (Px 160)
   \<and> style_height (resizeCanvas default_props 2 blank_canvas) = Some (Px 160)
   \<and> width (resizeCanvas default_props 2 blank_canvas) = 320
   \<and> height (resizeCanvas default_props 2 blank_canvas) = 320
   \<and> transform (st (ctx2d (resizeCanvas default_props 2 blank_canvas))) = (2, 0, 0, 2, 0, 0)"
proof -
  have h: "0 < size_px default_props" "(0::real) < 2" "has_context blank_canvas"
    "size_px default_props * 2 = real (320::nat)" "(320::nat) < 2 ^ 53"
    by (simp_all add: default_props_def blank_canvas_def)
  show ?thesis
    using resizeCanvas_dimensions [OF h(1,2), of blank_canvas] h
    unfolding Let_def by (auto simp: default_props_def)
qed

text \<open>
  C6 as stated fails by a pixel where the rounding of the product crosses a whole number.
  With the default size 160 and the pixel ratio 1.1 (the double nearest to it, slightly
  above 1.1), the exact product lies just above 176 and its ceiling is 177; the product
  as a double is 176 (a tie, rounded to the even significand), and the code allocates
  176 pixels.
\<close>

theorem resizeCanvas_rounded_product_counterexample:
  "0 < size_px default_props \<and> 0 < double_1_1
   \<and> width (resizeCanvas default_props double_1_1 blank_canvas) = 176
   \<and> \<lceil>size_px default_props * double_1_1\<rceil> = (177::int)"
proof -
  have r: "round_double (160 * double_1_1) = 176"
    by (subst round_double_binade [where k = 7])
       (simp_all add: double_1_1_def round_half_even_def)
  have pos: "0 < double_1_1" "double_1_1 \<noteq> 0"
    by (simp_all add: double_1_1_def)
  have "\<lceil>160 * double_1_1\<rceil> = (177::int)"
    by (simp add: double_1_1_def ceiling_eq_iff)
  then show ?thesis
    using pos by (simp add: resizeCanvas_def Let_def getContext_def js_times_def r
        default_props_def blank_canvas_def)
qed

section \<open>The pulse of the Ornament\<close>

text \<open>
  The glyph is fourteen drawing events: four strokes for the crown (its path procedure
  strokes too), two for each of the four other neon strokes, and the two accent dots.
\<close>

lemma drawOrnamentAt_appends:
  "\<exists>evs. drawn (drawOrnamentAt p scale c) = drawn c @ evs \<and> length evs = 14"
  by (simp add: drawOrnamentAt_def Let_def neonStroke_drawn path_procedures_drawn ctx_drawn
        fold_crown_petal_fields)

lemma frame_draw_halo:
  "\<exists>s evs. drawn (frame_draw p now w v c) =
      drawn c @ [ClearRect 0 0 (real_of_int w) (real_of_int v),
                 Fill [Ellipse 0 (- 8) (72 * frame_scale p now) (98 * frame_scale p now)
                         0 0 (pi * 2)] s] @ evs
    \<and> fillStyle s = Gradient (halo_gradient p) \<and> length evs = 14"
proof -
  define c1 where
    "c1 = ctx_fill (ctx_ellipse 0 (- 8) (72 * frame_scale p now) (98 * frame_scale p now)
            0 0 (pi * 2) (ctx_beginPath (set_fillStyle (Gradient (halo_gradient p))
            (ctx_rotate (rotation p) (ctx_translate (size_px p / 2) (size_px p / 2 - 6)
            (ctx_save (ctx_clearRect 0 0 (real_of_int w) (real_of_int v) c)))))))"
  define s where
    "s = st (set_fillStyle (Gradient (halo_gradient p))
            (ctx_rotate (rotation p) (ctx_translate (size_px p / 2) (size_px p / 2 - 6)
            (ctx_save (ctx_clearRect 0 0 (real_of_int w) (real_of_int v) c)))))"
  have unfolded: "frame_draw p now w v c = ctx_restore (drawOrnamentAt p (frame_scale p now) c1)"
    by (simp add: frame_draw_def Let_def c1_def)
  have before: "drawn c1 =
      drawn c @ [ClearRect 0 0 (real_of_int w) (real_of_int v),
                 Fill [Ellipse 0 (- 8) (72 * frame_scale p now) (98 * frame_scale p now)
                         0 0 (pi * 2)] s]"
    by (simp add: c1_def s_def ctx_drawn ctx_cur_path ctx_st)
  have halo: "fillStyle s = Gradient (halo_gradient p)"
    by (simp add: s_def ctx_st)
  obtain evs where evs: "drawn (drawOrnamentAt p (frame_scale p now) c1) = drawn c1 @ evs"
      and len: "length evs = 14"
    using drawOrnamentAt_appends [of p "frame_scale p now" c1] by blast
  have "drawn (frame_draw p now w v c) =
      drawn c @ [ClearRect 0 0 (real_of_int w) (real_of_int v),
                 Fill [Ellipse 0 (- 8) (72 * frame_scale p now) (98 * frame_scale p now)
                         0 0 (pi * 2)] s] @ evs"
    by (simp add: unfolded ctx_drawn evs before)
  with halo len show ?thesis by blast
qed

text \<open>
  C1, as the code has it. In every frame the pulse factor is \<open>0.965 + 0.035 sin (now / 250)\<close>
  when pulsing is enabled and 1 when it is disabled, where \<open>now\<close> is the timestamp in
  milliseconds that the host passes to the frame callback; in the spec's terms it is the
  time elapsed since timestamp 0 of the host's clock, whenever the loop was started. The
  frame shows the factor: after clearing, it fills the halo ellipse with radii
  \<open>72 * scale\<close> and \<open>98 * scale\<close>, \<open>scale = size / 160 * pulseFactor\<close>, and then draws the
  glyph (fourteen events).
\<close>

theorem pulseFactor_of_timestamp:
  "pulseFactor p now = (if pulse p then 0.965 + 0.035 * sin (now / 250) else 1)
   \<and> pulseFactor p now = spec_pulseFactor p 0 now
   \<and> (\<exists>s evs. drawn (ctx2d (canvas (frame p now h))) =
          drawn (ctx2d (canvas h)) @
            [ClearRect 0 0 (real_of_int (width (canvas h))) (real_of_int (height (canvas h))),
             Fill [Ellipse 0 (- 8) (72 * (size_px p / 160 * pulseFactor p now))
                     (98 * (size_px p / 160 * pulseFactor p now)) 0 0 (pi * 2)] s] @ evs
        \<and> fillStyle s = Gradient (halo_gradient p) \<and> length evs = 14)"
proof -
  have scale: "frame_scale p now = size_px p / 160 * pulseFactor p now"
    by (simp add: frame_scale_def)
  have "drawn (ctx2d (canvas (frame p now h))) =
          drawn (frame_draw p now (width (canvas h)) (height (canvas h)) (ctx2d (canvas h)))"
    by (simp add: frame_def Let_def with_ctx_def requestAnimationFrame_def)
  then have drawn_frame:
    "\<exists>s evs. drawn (ctx2d (canvas (frame p now h))) =
        drawn (ctx2d (canvas h)) @
          [ClearRect 0 0 (real_of_int (width (canvas h))) (real_of_int (height (canvas h))),
           Fill [Ellipse 0 (- 8) (72 * (size_px p / 160 * pulseFactor p now))
                   (98 * (size_px p / 160 * pulseFactor p now)) 0 0 (pi * 2)] s] @ evs
      \<and> fillStyle s = Gradient (halo_gradient p) \<and> length evs = 14"
    using frame_draw_halo [of p now "width (canvas h)" "height (canvas h)" "ctx2d (canvas h)"]
    by (simp only: scale)
  have "pulseFactor p now = (if pulse p then 0.965 + 0.035 * sin (now / 250) else 1)"
    by (simp add: pulseFactor_def)
  moreover have "pulseFactor p now = spec_pulseFactor p 0 now"
    by (simp add: pulseFactor_def spec_pulseFactor_def)
  ultimately show ?thesis
    using drawn_frame by blast
qed

text \<open>
  C1 as stated fails: the code does not measure time from the start of the loop. For a
  loop started at timestamp \<open>125 pi\<close> (about 393 ms), the frame at timestamp \<open>250 pi\<close> has
  pulse factor 0.965, where the formula applied to the elapsed time \<open>125 pi\<close> gives 1.
\<close>

theorem pulseFactor_not_elapsed_time:
  "pulseFactor pulsing (250 * pi) = 0.965
   \<and> spec_pulseFactor pulsing (125 * pi) (250 * pi) = 1
   \<and> pulseFactor pulsing (250 * pi) \<noteq> spec_pulseFactor pulsing (125 * pi) (250 * pi)"
  by (simp add: pulseFactor_def spec_pulseFactor_def pulsing_def default_props_def)

lemma sin_quarter_plus: "sin (pi / 2 + x) = cos (x::real)"
  by (simp add: sin_add)

lemma cos_less_one_inside_period:
  fixes x :: real
  assumes "0 < x" and "x < 2 * pi"
  shows "cos x < 1"
proof -
  have "cos x \<noteq> 1"
  proof
    assume "cos x = 1"
    then obtain n :: int where n: "x = real_of_int n * 2 * pi"
      by (auto simp: cos_one_2pi_int)
    from assms(1) n have "0 < real_of_int n * (2 * pi)" by (simp add: mult.assoc)
    then have "0 < real_of_int n" by (simp add: zero_less_mult_iff)
    moreover from assms(2) n have "real_of_int n * (2 * pi) < 1 * (2 * pi)"
      by (simp add: mult.assoc)
    then have "real_of_int n < 1"
      using mult_less_cancel_right_pos [of "2 * pi" "real_of_int n" 1] by simp
    ultimately show False by simp
  qed
  with cos_le_one [of x] show ?thesis by linarith
qed

text \<open>
  C2, as the code has it. With \<open>pulse = true\<close> and \<open>size \<ge> 0\<close> the scale factor of every
  frame lies within \<open>[0.93 * (size / 160), 1.0 * (size / 160)]\<close>, and as a function of the
  timestamp it is the sinusoid \<open>(size / 160) * (0.965 + 0.035 sin (2 pi t / P))\<close> of period
  \<open>P = 500 pi\<close> milliseconds (about 1571 ms): it repeats after \<open>500 pi\<close>, and for \<open>size > 0\<close>
  after no shorter time.
\<close>

theorem frame_scale_range_and_period:
  assumes "pulse p" and "0 \<le> size_px p"
  shows "0.93 * (size_px p / 160) \<le> frame_scale p now
       \<and> frame_scale p now \<le> 1.0 * (size_px p / 160)
       \<and> frame_scale p now =
           (size_px p / 160) * (0.965 + 0.035 * sin (2 * pi * now / (500 * pi)))
       \<and> frame_scale p (now + 500 * pi) = frame_scale p now
       \<and> (0 < size_px p \<longrightarrow>
            (\<forall>q. 0 < q \<and> q < 500 * pi \<longrightarrow>
                 frame_scale p (125 * pi + q) \<noteq> frame_scale p (125 * pi)))"
proof -
  define k where "k = size_px p / 160"
  have k: "0 \<le> k" using assms(2) by (simp add: k_def)
  have fs: "frame_scale p t = k * (0.965 + 0.035 * sin (t / 250))" for t
    using assms(1) by (simp add: frame_scale_def pulseFactor_def k_def)
  have bound_lo: "0.93 \<le> 0.965 + 0.035 * s" if "- 1 \<le> s" for s :: real
    using that by simp
  have bound_hi: "0.965 + 0.035 * s \<le> 1" if "s \<le> 1" for s :: real
    using that by simp
  have lo: "0.93 \<le> 0.965 + 0.035 * sin (now / 250)"
    by (rule bound_lo) (rule sin_ge_minus_one)
  have hi: "0.965 + 0.035 * sin (now / 250) \<le> 1"
    by (rule bound_hi) (rule sin_le_one)
  have range_lo: "0.93 * k \<le> frame_scale p now"
    using mult_left_mono [OF lo k] by (simp only: fs mult.commute)
  have range_hi: "frame_scale p now \<le> 1.0 * k"
    using mult_left_mono [OF hi k] by (simp add: fs)
  have "(now + 500 * pi) / 250 = now / 250 + 2 * pi" by simp
  then have per: "frame_scale p (now + 500 * pi) = frame_scale p now"
    by (simp only: fs sin_periodic)
  have form: "frame_scale p now = k * (0.965 + 0.035 * sin (2 * pi * now / (500 * pi)))"
    by (simp add: fs)
  have least: "frame_scale p (125 * pi + q) \<noteq> frame_scale p (125 * pi)"
    if "0 < size_px p" and "0 < q" and "q < 500 * pi" for q
  proof -
    have kpos: "0 < k" using that(1) by (simp add: k_def)
    have "0 < q / 250" and "q / 250 < 2 * pi" using that(2,3) by simp_all
    then have c: "cos (q / 250) < 1" by (rule cos_less_one_inside_period)
    have "(125 * pi + q) / 250 = pi / 2 + q / 250" by simp
    then have s: "sin ((125 * pi + q) / 250) = cos (q / 250)"
      by (simp only: sin_quarter_plus)
    have "125 * pi / 250 = pi / 2" by simp
    then have s0: "sin (125 * pi / 250) = 1" by (simp only: sin_pi_half)
    have "k * (0.965 + 0.035 * cos (q / 250)) < k * (0.965 + 0.035 * 1)"
      using c kpos by (intro mult_strict_left_mono) simp_all
    then have "k * (0.965 + 0.035 * cos (q / 250)) \<noteq> k * (0.965 + 0.035 * 1)"
      by (rule less_imp_neq)
    then show ?thesis
      unfolding fs s s0 .
  qed
  show ?thesis
    using range_lo range_hi per form least unfolding k_def by blast
qed

theorem frame_scale_range_and_period_witness:
  "pulse pulsing \<and> 0 < size_px pulsing \<and> (0::real) < 500 \<and> (500::real) < 500 * pi
   \<and> 0.93 \<le> frame_scale pulsing 1000 \<and> frame_scale pulsing 1000 \<le> 1
   \<and> frame_scale pulsing (1000 + 500 * pi) = frame_scale pulsing 1000
   \<and> frame_scale pulsing (125 * pi + 500) \<noteq> frame_scale pulsing (125 * pi)"
proof -
  have p: "pulse pulsing" "0 \<le> size_px pulsing" "0 < size_px pulsing" "size_px pulsing = 160"
    by (simp_all add: pulsing_def default_props_def)
  have q: "(500::real) < 500 * pi" using pi_ge_two by simp
  show ?thesis
    using frame_scale_range_and_period [OF p(1,2), of 1000] p q by simp
qed

text \<open>
  C2 as stated fails in its period: 500 ms is not a period of the scale factor. At
  timestamp \<open>125 pi\<close> (about 393 ms) the scale is at its maximum, \<open>size / 160 = 1\<close>; 500 ms
  later it is below \<open>0.965\<close>.
\<close>

theorem frame_scale_period_500_counterexample:
  "frame_scale pulsing (125 * pi) = 1
   \<and> frame_scale pulsing (125 * pi + 500) < 0.965
   \<and> frame_scale pulsing (125 * pi + 500) \<noteq> frame_scale pulsing (125 * pi)"
proof -
  have a: "125 * pi / 250 = pi / 2" by simp
  have b: "(125 * pi + 500) / 250 = pi / 2 + 2" by simp
  have "sin (pi / 2 + 2) < (0::real)"
    by (simp only: sin_quarter_plus cos_two_less_zero)
  then show ?thesis
    by (simp add: frame_scale_def pulseFactor_def pulsing_def default_props_def a b)
qed

section \<open>The rings of MandalaBase\<close>

lemma rrggbb_half_alpha:
  assumes "is_rrggbb col"
  shows "\<exists>r g b. css_hex_color col = Some (r, g, b, 255)
           \<and> css_hex_color (col @ ''80'') = Some (r, g, b, 128)"
proof -
  from assms obtain ds where col: "col = CHR ''#'' # ds" and len: "length ds = 6"
    and hex: "list_all (\<lambda>d. hex_digit d \<noteq> None) ds"
    by (auto simp: is_rrggbb_def split: list.splits)
  from len obtain d1 d2 d3 d4 d5 d6 where ds: "ds = [d1, d2, d3, d4, d5, d6]"
    by (auto simp: eval_nat_numeral length_Suc_conv)
  from hex ds obtain v1 v2 v3 v4 v5 v6 where
    v: "hex_digit d1 = Some v1" "hex_digit d2 = Some v2" "hex_digit d3 = Some v3"
       "hex_digit d4 = Some v4" "hex_digit d5 = Some v5" "hex_digit d6 = Some v6"
    by auto
  have e: "hex_digit CHR ''8'' = Some 8" "hex_digit CHR ''0'' = Some 0"
    by (simp_all add: hex_digit_def)
  show ?thesis
    by (simp add: col ds css_hex_color_def v e)
qed

text \<open>
  C5, as the code has it. For every colour written \<open>#rrggbb\<close>, every radius, thickness and
  centre, \<open>drawGlowingRing\<close> draws one fill, of the annulus between \<open>radius - thickness / 2\<close>
  and \<open>radius + thickness / 2\<close>, under additive blending and with a radial gradient that
  spans these two radii and whose stops are exactly: 0 transparent, 0.4 the colour at
  about 50 percent alpha, 0.5 the colour, 0.6 the colour at about 50 percent alpha,
  1 transparent. The half-alpha stops are the colour string followed by \<open>80\<close>, which reads
  as the same red, green and blue with alpha 128 of 255.
\<close>

theorem drawGlowingRing_gradient:
  assumes "is_rrggbb col"
  shows "drawn (drawGlowingRing x y radius thickness col c) =
     drawn c @
     [Fill [Arc x y (radius + thickness / 2) 0 (pi * 2) False,
            Arc x y (radius - thickness / 2) 0 (pi * 2) True, ClosePath]
        ((st c)\<lparr>globalCompositeOperation := ''lighter'',
           fillStyle := Gradient
             \<lparr>grad_x0 = x, grad_y0 = y, grad_r0 = radius - thickness / 2,
              grad_x1 = x, grad_y1 = y, grad_r1 = radius + thickness / 2,
              stops = [(0, ''transparent''), (0.4, col @ ''80''), (0.5, col),
                       (0.6, col @ ''80''), (1, ''transparent'')]\<rparr>\<rparr>)]
   \<and> spec_half_alpha col (col @ ''80'')
   \<and> (\<exists>r g b. css_hex_color col = Some (r, g, b, 255)
          \<and> css_hex_color (col @ ''80'') = Some (r, g, b, 128))"
proof -
  obtain r g b where rgb: "css_hex_color col = Some (r, g, b, 255)"
      "css_hex_color (col @ ''80'') = Some (r, g, b, 128)"
    using rrggbb_half_alpha [OF assms] by blast
  have half: "spec_half_alpha col (col @ ''80'')"
    by (simp add: spec_half_alpha_def rgb)
  have "drawn (drawGlowingRing x y radius thickness col c) =
     drawn c @
     [Fill [Arc x y (radius + thickness / 2) 0 (pi * 2) False,
            Arc x y (radius - thickness / 2) 0 (pi * 2) True, ClosePath]
        ((st c)\<lparr>globalCompositeOperation := ''lighter'',
           fillStyle := Gradient
             \<lparr>grad_x0 = x, grad_y0 = y, grad_r0 = radius - thickness / 2,
              grad_x1 = x, grad_y1 = y, grad_r1 = radius + thickness / 2,
              stops = [(0, ''transparent''), (0.4, col @ ''80''), (0.5, col),
                       (0.6, col @ ''80''), (1, ''transparent'')]\<rparr>\<rparr>)]"
    by (simp add: drawGlowingRing_def Let_def ctx_drawn ctx_st ctx_cur_path
          createRadialGradient_def addColorStop_def)
  with half rgb show ?thesis by blast
qed

theorem drawGlowingRing_gradient_witness:
  "is_rrggbb ''#ff00ff''
   \<and> drawn (drawGlowingRing 400 300 170 60 ''#ff00ff'' fresh_ctx) =
     [Fill [Arc 400 300 200 0 (pi * 2) False, Arc 400 300 140 0 (pi * 2) True, ClosePath]
        (default_dstate\<lparr>globalCompositeOperation := ''lighter'',
           fillStyle := Gradient
             \<lparr>grad_x0 = 400, grad_y0 = 300, grad_r0 = 140,
              grad_x1 = 400, grad_y1 = 300, grad_r1 = 200,
              stops = [(0, ''transparent''), (0.4, ''#ff00ff80''), (0.5, ''#ff00ff''),
                       (0.6, ''#ff00ff80''), (1, ''transparent'')]\<rparr>\<rparr>)]
   \<and> spec_half_alpha ''#ff00ff'' ''#ff00ff80''
   \<and> css_hex_color ''#ff00ff'' = Some (255, 0, 255, 255)
   \<and> css_hex_color ''#ff00ff80'' = Some (255, 0, 255, 128)"
proof -
  have h: "is_rrggbb ''#ff00ff''"
    by (simp add: is_rrggbb_def hex_digit_def)
  have c: "css_hex_color ''#ff00ff'' = Some (255, 0, 255, 255)"
      "css_hex_color ''#ff00ff80'' = Some (255, 0, 255, 128)"
    by (simp_all add: css_hex_color_def hex_digit_def)
  show ?thesis
    using drawGlowingRing_gradient [OF h, of 400 300 170 60 fresh_ctx] h c
    by (simp add: fresh_ctx_def)
qed

text \<open>
  C5 as stated fails for a colour in another notation: the code appends \<open>80\<close> to the
  string whatever it is. For \<open>#ffff\<close> (opaque white in the notation \<open>#rgba\<close>) the stops at
  0.4 and 0.6 are \<open>#ffff80\<close>, which reads as an opaque pale yellow, not as white at half
  alpha.
\<close>

theorem drawGlowingRing_short_hex_counterexample:
  "drawn (drawGlowingRing 400 300 170 60 ''#ffff'' fresh_ctx) =
     [Fill [Arc 400 300 200 0 (pi * 2) False, Arc 400 300 140 0 (pi * 2) True, ClosePath]
        (default_dstate\<lparr>globalCompositeOperation := ''lighter'',
           fillStyle := Gradient
             \<lparr>grad_x0 = 400, grad_y0 = 300, grad_r0 = 140,
              grad_x1 = 400, grad_y1 = 300, grad_r1 = 200,
              stops = [(0, ''transparent''), (0.4, ''#ffff80''), (0.5, ''#ffff''),
                       (0.6, ''#ffff80''), (1, ''transparent'')]\<rparr>\<rparr>)]
   \<and> css_hex_color ''#ffff'' = Some (255, 255, 255, 255)
   \<and> css_hex_color ''#ffff80'' = Some (255, 255, 128, 255)
   \<and> \<not> spec_half_alpha ''#ffff'' ''#ffff80''"
  by (simp add: drawGlowingRing_def Let_def ctx_drawn ctx_st ctx_cur_path
        createRadialGradient_def addColorStop_def fresh_ctx_def
        css_hex_color_def hex_digit_def spec_half_alpha_def)


lemma drawGlowingRing_drawn:
  "drawn (drawGlowingRing x y radius thickness col c) =
     drawn c @
     [Fill [Arc x y (radius + thickness / 2) 0 (pi * 2) False,
            Arc x y (radius - thickness / 2) 0 (pi * 2) True, ClosePath]
        ((st c)\<lparr>globalCompositeOperation := ''lighter'',
           fillStyle := Gradient
             (addColorStop 1 ''transparent'' (addColorStop 0.6 (col @ ''80'')
               (addColorStop 0.5 col (addColorStop 0.4 (col @ ''80'')
                 (addColorStop 0 ''transparent''
                   (createRadialGradient x y (radius - thickness / 2)
                      x y (radius + thickness / 2)))))))\<rparr>)]"
  by (simp add: drawGlowingRing_def Let_def ctx_drawn ctx_st ctx_cur_path)

lemma drawGlowingRing_keeps_state:
  "st (drawGlowingRing x y radius thickness col c) = st c"
  "saved (drawGlowingRing x y radius thickness col c) = saved c"
  by (simp_all add: drawGlowingRing_def Let_def ctx_saved ctx_st)

text \<open>The dotted loop runs its body for \<open>i = 0, 1, \<dots>\<close> below \<open>dotCount\<close>, in order.\<close>

lemma dotted_loop_fold:
  "dotted_loop x y radius col dotCount angleStep i c =
     fold (plot_dot x y radius col angleStep) [i ..< nat \<lceil>dotCount\<rceil>] c"
proof (induction x y radius col dotCount angleStep i c rule: dotted_loop.induct)
  case (1 x y radius col dotCount angleStep i c)
  show ?case
  proof (cases "real i < dotCount")
    case True
    then have "i < nat \<lceil>dotCount\<rceil>" by linarith
    then have "[i ..< nat \<lceil>dotCount\<rceil>] = i # [Suc i ..< nat \<lceil>dotCount\<rceil>]"
      by (simp add: upt_conv_Cons)
    with True 1 show ?thesis
      by (simp add: dotted_loop.simps [of x y radius col dotCount angleStep i c])
  next
    case False
    then have "nat \<lceil>dotCount\<rceil> \<le> i" by linarith
    with False show ?thesis
      by (simp add: dotted_loop.simps [of x y radius col dotCount angleStep i c])
  qed
qed

lemma plot_dot_fields:
  "drawn (plot_dot x y radius col angleStep i c) =
     drawn c @ [dot_event x y radius angleStep ((st c)\<lparr>fillStyle := Color col\<rparr>) i]"
  "st (plot_dot x y radius col angleStep i c) = (st c)\<lparr>fillStyle := Color col\<rparr>"
  "saved (plot_dot x y radius col angleStep i c) = saved c"
  by (simp_all add: plot_dot_def Let_def ctx_drawn ctx_st ctx_saved ctx_cur_path dot_event_def)

lemma fold_plot_dot:
  "drawn (fold (plot_dot x y radius col angleStep) js c) =
     drawn c @ map (dot_event x y radius angleStep ((st c)\<lparr>fillStyle := Color col\<rparr>)) js
   \<and> saved (fold (plot_dot x y radius col angleStep) js c) = saved c"
proof (induction js arbitrary: c)
  case Nil
  show ?case by simp
next
  case (Cons j js)
  show ?case
    by (simp add: Cons.IH plot_dot_fields)
qed

lemma drawCircle_dotted_drawn:
  "drawn (drawCircle x y radius
            \<lparr>co_color = cl, co_lineWidth = lw, co_dotted = Some True, co_dotCount = Some dc\<rparr> c) =
     drawn c @ map (dot_event x y radius (pi * 2 / dc)
        ((st c)\<lparr>strokeStyle := Color (case cl of None \<Rightarrow> ''#ff00ff'' | Some v \<Rightarrow> v),
                lineWidth := (case lw of None \<Rightarrow> 2 | Some v \<Rightarrow> v),
                fillStyle := Color (case cl of None \<Rightarrow> ''#ff00ff'' | Some v \<Rightarrow> v)\<rparr>))
        [0 ..< nat \<lceil>dc\<rceil>]"
  by (simp add: drawCircle_def Let_def dotted_loop_fold fold_plot_dot ctx_drawn ctx_st)

lemma drawCircle_solid_drawn:
  "drawn (drawCircle x y radius
            \<lparr>co_color = cl, co_lineWidth = lw, co_dotted = None, co_dotCount = dc\<rparr> c) =
     drawn c @ [Stroke [Arc x y radius 0 (pi * 2) False]
        ((st c)\<lparr>strokeStyle := Color (case cl of None \<Rightarrow> ''#ff00ff'' | Some v \<Rightarrow> v),
                lineWidth := (case lw of None \<Rightarrow> 2 | Some v \<Rightarrow> v)\<rparr>)]"
  by (simp add: drawCircle_def Let_def ctx_drawn ctx_st ctx_cur_path)

lemma drawCircle_keeps_state:
  "st (drawCircle x y radius options c) = st c"
  "saved (drawCircle x y radius options c) = saved c"
  by (simp_all add: drawCircle_def Let_def dotted_loop_fold fold_plot_dot ctx_saved ctx_st)

lemma dot_event_unfolded:
  "dot_event x y R a s =
     (\<lambda>i. Fill [Arc (x + cos (real i * a) * R) (y + sin (real i * a) * R) 2 0 (pi * 2) False] s)"
  by (rule ext) (simp add: dot_event_def)

lemma dot_distance:
  "sqrt ((x + cos a * R - x)\<^sup>2 + (y + sin a * R - y)\<^sup>2) = \<bar>R\<bar>"
proof -
  have "(cos a * R)\<^sup>2 + (sin a * R)\<^sup>2 = R\<^sup>2 * ((sin a)\<^sup>2 + (cos a)\<^sup>2)"
    by (simp only: power_mult_distrib distrib_left mult.commute add.commute)
  also have "\<dots> = R\<^sup>2"
    by (simp only: sin_cos_squared_add mult_1_right)
  finally show ?thesis by simp
qed

text \<open>
  C4. With \<open>dotted = true\<close> and \<open>dotCount = N\<close>, \<open>drawCircle\<close> draws exactly \<open>N\<close> dots and nothing
  else: the \<open>i\<close>-th, for \<open>i = 0, \<dots>, N - 1\<close> in this order, is the filled disc of radius 2
  centred at \<open>(x + cos (i * (2 pi / N)) * R, y + sin (i * (2 pi / N)) * R)\<close>, the point at
  angle \<open>i * (2 pi / N)\<close> on the circle of radius \<open>R\<close> around \<open>(x, y)\<close>; its distance from
  \<open>(x, y)\<close> is \<open>\<bar>R\<bar>\<close>, that is \<open>R\<close> for a radius \<open>R \<ge> 0\<close>.
\<close>

theorem drawCircle_dotted_plots_dots:
  "let col = (case cl of None \<Rightarrow> ''#ff00ff'' | Some v \<Rightarrow> v);
       s = (st c)\<lparr>strokeStyle := Color col,
                  lineWidth := (case lw of None \<Rightarrow> 2 | Some v \<Rightarrow> v),
                  fillStyle := Color col\<rparr>;
       dotX = (\<lambda>i. x + cos (real i * (pi * 2 / real N)) * R);
       dotY = (\<lambda>i. y + sin (real i * (pi * 2 / real N)) * R)
   in drawn (drawCircle x y R
               \<lparr>co_color = cl, co_lineWidth = lw, co_dotted = Some True,
                co_dotCount = Some (real N)\<rparr> c) =
        drawn c @ map (\<lambda>i. Fill [Arc (dotX i) (dotY i) 2 0 (pi * 2) False] s) [0 ..< N]
    \<and> (\<forall>i<N. sqrt ((dotX i - x)\<^sup>2 + (dotY i - y)\<^sup>2) = \<bar>R\<bar>)"
proof -
  have count: "nat \<lceil>real N\<rceil> = N" by simp
  show ?thesis
    unfolding Let_def drawCircle_dotted_drawn count dot_event_unfolded dot_distance
    by simp
qed

theorem drawCircle_dotted_plots_dots_witness:
  "(2::nat) < 4
   \<and> drawn (drawCircle 0 0 230
               \<lparr>co_color = Some ''#ff00ff'', co_lineWidth = None, co_dotted = Some True,
                co_dotCount = Some 4\<rparr> fresh_ctx) =
       map (\<lambda>i. Fill [Arc (0 + cos (real i * (pi * 2 / 4)) * 230)
                         (0 + sin (real i * (pi * 2 / 4)) * 230) 2 0 (pi * 2) False]
              (default_dstate\<lparr>strokeStyle := Color ''#ff00ff'', lineWidth := 2,
                 fillStyle := Color ''#ff00ff''\<rparr>)) [0 ..< 4]
   \<and> sqrt ((0 + cos (real (2::nat) * (pi * 2 / 4)) * 230 - 0)\<^sup>2
           + (0 + sin (real (2::nat) * (pi * 2 / 4)) * 230 - 0)\<^sup>2) = 230"
  using drawCircle_dotted_plots_dots [where N = 4 and x = 0 and y = 0 and R = 230
      and cl = "Some ''#ff00ff''" and lw = None and c = fresh_ctx]
  by (simp add: Let_def fresh_ctx_def)

section \<open>A frame of MandalaBase\<close>

lemma mandala_render_drawn:
  "drawn (ctx2d (canvas (mandala_render h))) =
     drawn (ctx2d (canvas h)) @
       spec_mandala_frame (width (canvas h)) (height (canvas h)) (st (ctx2d (canvas h)))"
  by (simp add: mandala_render_def center_def Let_def with_ctx_def requestAnimationFrame_def
        spec_mandala_frame_def drawGlowingRing_drawn drawGlowingRing_keeps_state
        drawCircle_solid_drawn drawCircle_dotted_drawn drawCircle_keeps_state ctx_drawn ctx_st
        createRadialGradient_def addColorStop_def)

lemma mandala_render_host:
  "raf_pending (mandala_render h) = raf_pending h @ [(Suc (raf_last h), MandalaRender)]"
  "raf_last (mandala_render h) = Suc (raf_last h)"
  "resize_listeners (mandala_render h) = resize_listeners h"
  "st (ctx2d (canvas (mandala_render h))) = st (ctx2d (canvas h))"
  "width (canvas (mandala_render h)) = width (canvas h)"
  "height (canvas (mandala_render h)) = height (canvas h)"
  by (simp_all add: mandala_render_def center_def Let_def with_ctx_def requestAnimationFrame_def
        drawGlowingRing_keeps_state drawCircle_keeps_state ctx_st)

lemma spec_mandala_frame_length: "length (spec_mandala_frame w v s) = 163"
  by (simp add: spec_mandala_frame_def Let_def)

text \<open>
  C7. In a viewport of 800 by 600, whatever the canvas measured before, a frame rendered
  after the resize handler has run (at mount, or on a resize event) clears the surface
  and draws, in this order and all around \<open>(400, 300)\<close>: the glow ring of radius 170 and
  thickness 60 (a gradient from radius 140 to 200), the solid ring of radius 200 with line
  width 4, and the 160 dots of the dotted ring of radius 230. Mounting in such a viewport
  draws exactly this frame.
\<close>

theorem mandala_800x600_frame:
  assumes "innerWidth h = 800" and "innerHeight h = 600"
  shows
    "let s = st (ctx2d (canvas h));
         frame_events =
           [ClearRect 0 0 800 600,
            Fill [Arc 400 300 200 0 (pi * 2) False, Arc 400 300 140 0 (pi * 2) True, ClosePath]
              (s\<lparr>globalCompositeOperation := ''lighter'',
                 fillStyle := Gradient
                   \<lparr>grad_x0 = 400, grad_y0 = 300, grad_r0 = 140,
                    grad_x1 = 400, grad_y1 = 300, grad_r1 = 200,
                    stops = [(0, ''transparent''), (0.4, ''#ff00ff80''), (0.5, ''#ff00ff''),
                             (0.6, ''#ff00ff80''), (1, ''transparent'')]\<rparr>\<rparr>),
            Stroke [Arc 400 300 200 0 (pi * 2) False]
              (s\<lparr>strokeStyle := Color ''#ff66ff'', lineWidth := 4\<rparr>)]
           @ map (\<lambda>i. Fill [Arc (400 + cos (real i * (pi * 2 / 160)) * 230)
                                (300 + sin (real i * (pi * 2 / 160)) * 230) 2 0 (pi * 2) False]
                         (s\<lparr>strokeStyle := Color ''#ff00ff'', lineWidth := 2,
                            fillStyle := Color ''#ff00ff''\<rparr>))
               [0 ..< 160]
     in drawn (ctx2d (canvas (run_callback now MandalaRender (run_listener MandalaResize h)))) =
          drawn (ctx2d (canvas h)) @ frame_events
      \<and> (canvas_attached h \<and> has_context (canvas h) \<longrightarrow>
           drawn (ctx2d (canvas (fst (mandala_effect h)))) =
             drawn (ctx2d (canvas h)) @ frame_events)"
proof -
  have frame_events:
    "spec_mandala_frame 800 600 s =
       [ClearRect 0 0 800 600,
        Fill [Arc 400 300 200 0 (pi * 2) False, Arc 400 300 140 0 (pi * 2) True, ClosePath]
          (s\<lparr>globalCompositeOperation := ''lighter'',
             fillStyle := Gradient
               \<lparr>grad_x0 = 400, grad_y0 = 300, grad_r0 = 140,
                grad_x1 = 400, grad_y1 = 300, grad_r1 = 200,
                stops = [(0, ''transparent''), (0.4, ''#ff00ff80''), (0.5, ''#ff00ff''),
                         (0.6, ''#ff00ff80''), (1, ''transparent'')]\<rparr>\<rparr>),
        Stroke [Arc 400 300 200 0 (pi * 2) False]
          (s\<lparr>strokeStyle := Color ''#ff66ff'', lineWidth := 4\<rparr>)]
       @ map (\<lambda>i. Fill [Arc (400 + cos (real i * (pi * 2 / 160)) * 230)
                            (300 + sin (real i * (pi * 2 / 160)) * 230) 2 0 (pi * 2) False]
                     (s\<lparr>strokeStyle := Color ''#ff00ff'', lineWidth := 2,
                        fillStyle := Color ''#ff00ff''\<rparr>))
           [0 ..< 160]" for s
    by (simp add: spec_mandala_frame_def Let_def dot_event_unfolded)
  have resized:
    "width (canvas (mandala_resize h)) = 800" "height (canvas (mandala_resize h)) = 600"
    "ctx2d (canvas (mandala_resize h)) = ctx2d (canvas h)"
    using assms by (simp_all add: mandala_resize_def)
  have after_resize:
    "drawn (ctx2d (canvas (mandala_render (mandala_resize h)))) =
       drawn (ctx2d (canvas h)) @ spec_mandala_frame 800 600 (st (ctx2d (canvas h)))"
    by (simp only: mandala_render_drawn resized)
  have listening:
    "canvas (addEventListener MandalaResize (mandala_resize h)) = canvas (mandala_resize h)"
    by (simp add: addEventListener_def)
  have mount:
    "drawn (ctx2d (canvas (fst (mandala_effect h)))) =
       drawn (ctx2d (canvas h)) @ spec_mandala_frame 800 600 (st (ctx2d (canvas h)))"
    if "canvas_attached h" and "has_context (canvas h)"
    using that
    by (simp add: mandala_effect_def getContext_def Let_def mandala_render_drawn listening resized)
  show ?thesis
    unfolding Let_def frame_events [symmetric]
    using after_resize mount by simp
qed

theorem mandala_800x600_frame_witness:
  "innerWidth initial_host = 800 \<and> innerHeight initial_host = 600
   \<and> canvas_attached initial_host \<and> has_context (canvas initial_host)
   \<and> length (drawn (ctx2d (canvas (fst (mandala_effect initial_host))))) = 163
   \<and> take 1 (drawn (ctx2d (canvas (fst (mandala_effect initial_host))))) = [ClearRect 0 0 800 600]
   \<and> take 1 (drawn (ctx2d (canvas (run_callback 0 MandalaRender (run_listener MandalaResize
         (initial_host\<lparr>canvas := blank_canvas\<lparr>width := 1024, height := 768\<rparr>\<rparr>)))))) =
       [ClearRect 0 0 800 600]"
  using mandala_800x600_frame [where h = initial_host and now = 0]
    mandala_800x600_frame
      [where h = "initial_host\<lparr>canvas := blank_canvas\<lparr>width := 1024, height := 768\<rparr>\<rparr>"
        and now = 0]
  by (simp add: Let_def initial_host_def blank_canvas_def fresh_ctx_def)

section \<open>Unmounting\<close>

lemma mandala_effect_mounted:
  assumes "canvas_attached h" and "has_context (canvas h)"
  shows "snd (mandala_effect h) = Some MandalaCleanup"
    and "raf_pending (fst (mandala_effect h)) = raf_pending h @ [(Suc (raf_last h), MandalaRender)]"
    and "resize_listeners (fst (mandala_effect h)) = resize_listeners h @ [MandalaResize]"
  using assms
  by (simp_all add: mandala_effect_def getContext_def Let_def mandala_render_host
        addEventListener_def mandala_resize_def)

lemma mandala_cleanup_keeps_loop:
  "raf_pending (mandala_cleanup h) = raf_pending h"
  "canvas (mandala_cleanup h) = canvas h"
  "resize_listeners (mandala_cleanup h) = remove1 MandalaResize (resize_listeners h)"
  by (simp_all add: mandala_cleanup_def removeEventListener_def)

lemma animation_frame_mandala:
  assumes "raf_pending h = [(k, MandalaRender)]"
  shows "raf_pending (animation_frame now h) = [(Suc (raf_last h), MandalaRender)]"
    and "drawn (ctx2d (canvas (animation_frame now h))) =
           drawn (ctx2d (canvas h)) @
             spec_mandala_frame (width (canvas h)) (height (canvas h)) (st (ctx2d (canvas h)))"
  using assms by (simp_all add: animation_frame_def mandala_render_host mandala_render_drawn)

text \<open>
  C3 does not hold for \<open>MandalaBase\<close>. Its cleanup removes the resize listener and nothing
  else: the frame that \<open>render\<close> requested stays queued. Mounted in the 800 by 600 window
  and unmounted at once, the component has no listener left, but the host still holds its
  render callback; the next animation frame runs it, which clears and redraws the
  surface (163 drawing events) and queues the callback again.
\<close>

theorem mandala_frames_after_unmount:
  "let h1 = fst (mandala_effect initial_host);
       h2 = unmount (snd (mandala_effect initial_host)) h1;
       h3 = animation_frame 16 h2
   in snd (mandala_effect initial_host) = Some MandalaCleanup
    \<and> resize_listeners h2 = []
    \<and> raf_pending h2 = [(1, MandalaRender)]
    \<and> drawn (ctx2d (canvas h3)) =
        drawn (ctx2d (canvas h2)) @ spec_mandala_frame 800 600 default_dstate
    \<and> length (drawn (ctx2d (canvas h3))) = length (drawn (ctx2d (canvas h2))) + 163
    \<and> raf_pending h3 = [(2, MandalaRender)]"
proof -
  have att: "canvas_attached initial_host" "has_context (canvas initial_host)"
    by (simp_all add: initial_host_def blank_canvas_def)
  define h1 where "h1 = fst (mandala_effect initial_host)"
  define h2 where "h2 = unmount (snd (mandala_effect initial_host)) h1"
  have cl: "snd (mandala_effect initial_host) = Some MandalaCleanup"
    by (rule mandala_effect_mounted [OF att])
  have p1: "raf_pending h1 = [(1, MandalaRender)]"
    unfolding h1_def mandala_effect_mounted(2) [OF att] by (simp add: initial_host_def)
  have l1: "resize_listeners h1 = [MandalaResize]"
    unfolding h1_def mandala_effect_mounted(3) [OF att] by (simp add: initial_host_def)
  have h2_eq: "h2 = mandala_cleanup h1"
    by (simp add: h2_def cl unmount_def)
  have p2: "raf_pending h2 = [(1, MandalaRender)]" and l2: "resize_listeners h2 = []"
    by (simp_all add: h2_eq mandala_cleanup_keeps_loop p1 l1)
  have cv: "width (canvas h2) = 800" "height (canvas h2) = 600"
    "st (ctx2d (canvas h2)) = default_dstate" "raf_last h2 = 1"
    by (simp_all add: h2_eq mandala_cleanup_def removeEventListener_def h1_def mandala_effect_def
          getContext_def att Let_def mandala_render_host addEventListener_def mandala_resize_def
          initial_host_def blank_canvas_def fresh_ctx_def)
  show ?thesis
    unfolding Let_def h1_def [symmetric] h2_def [symmetric]
    using animation_frame_mandala [OF p2, of 16] cl p2 l2 cv spec_mandala_frame_length by simp
qed

text \<open>
  Once only the render callback is pending, it is pending after every later frame, and
  every frame draws: the loop of \<open>MandalaBase\<close> never stops.
\<close>

lemma mandala_loop_never_stops:
  assumes "raf_pending h = [(k, MandalaRender)]"
  shows "\<exists>k'. raf_pending (run_events (map AnimationFrame ts) h) = [(k', MandalaRender)]"
    and "length (drawn (ctx2d (canvas (run_events (map AnimationFrame ts) h)))) =
           length (drawn (ctx2d (canvas h))) + 163 * length ts"
  using assms
proof (induction ts arbitrary: h k)
  case Nil
  {
    case 1 then show ?case by (simp add: run_events_def)
  next
    case 2 then show ?case by (simp add: run_events_def)
  }
next
  case (Cons t ts)
  {
    case 1
    have "raf_pending (animation_frame t h) = [(Suc (raf_last h), MandalaRender)]"
      by (rule animation_frame_mandala [OF 1])
    from Cons.IH(1) [OF this] show ?case by (simp add: run_events_def)
  next
    case 2
    have p: "raf_pending (animation_frame t h) = [(Suc (raf_last h), MandalaRender)]"
      by (rule animation_frame_mandala [OF 2])
    from Cons.IH(2) [OF p] animation_frame_mandala(2) [OF 2, of t]
    show ?case by (simp add: run_events_def spec_mandala_frame_length)
  }
qed

text \<open>
  \<open>Ornament\<close> does what C3 says. While it is mounted its loop is running, whatever events
  arrive; its cleanup cancels the pending frame and removes the listener; afterwards no
  event changes the surface.
\<close>

lemma frame_host:
  "raf_pending (frame p now h) = raf_pending h @ [(Suc (raf_last h), OrnamentFrame p)]"
  "rafRef (frame p now h) = Some (Suc (raf_last h))"
  "resize_listeners (frame p now h) = resize_listeners h"
  by (simp_all add: frame_def Let_def with_ctx_def requestAnimationFrame_def)

lemma ornament_effect_running:
  assumes "canvas_attached h" and "has_context (canvas h)" and "quiet h"
  shows "ornament_running p (fst (ornament_effect p h))"
    and "snd (ornament_effect p h) = Some (OrnamentCleanup p)"
  using assms
  by (simp_all add: ornament_effect_def getContext_def Let_def requestAnimationFrame_def
        addEventListener_def ornament_running_def quiet_def)

lemma host_step_running:
  assumes "ornament_running p h"
  shows "ornament_running p (host_step ev h)"
proof (cases ev)
  case (AnimationFrame now)
  from assms obtain k where k: "rafRef h = Some k" "raf_pending h = [(k, OrnamentFrame p)]"
    and l: "resize_listeners h = [OrnamentResize p]"
    by (auto simp: ornament_running_def split: option.splits)
  show ?thesis
    by (simp add: AnimationFrame animation_frame_def k l frame_host ornament_running_def)
next
  case Resize
  with assms show ?thesis
    by (auto simp: dispatch_resize_def onResize_def ornament_running_def split: option.splits)
next
  case (WindowSize w v)
  with assms show ?thesis
    by (auto simp: ornament_running_def split: option.splits)
qed

lemma run_events_running:
  "ornament_running p h \<Longrightarrow> ornament_running p (run_events evs h)"
  unfolding run_events_def
  by (induction evs arbitrary: h) (simp_all add: host_step_running)

lemma ornament_cleanup_quiet:
  assumes "ornament_running p h"
  shows "quiet (ornament_cleanup p h)" and "canvas (ornament_cleanup p h) = canvas h"
  using assms
  by (auto simp: ornament_running_def quiet_def ornament_cleanup_def Let_def
        cancelAnimationFrame_def removeEventListener_def split: option.splits)

lemma host_step_quiet:
  assumes "quiet h"
  shows "quiet (host_step ev h)" and "canvas (host_step ev h) = canvas h"
  using assms
  by (cases ev; simp add: quiet_def animation_frame_def dispatch_resize_def)+

lemma run_events_quiet:
  "quiet h \<Longrightarrow> quiet (run_events evs h) \<and> canvas (run_events evs h) = canvas h"
  unfolding run_events_def
  by (induction evs arbitrary: h) (simp_all add: host_step_quiet)

lemma ornament_unmount_stops_everything:
  assumes "canvas_attached h" and "has_context (canvas h)" and "quiet h"
  shows "let h1 = fst (ornament_effect p h);
             h2 = run_events evs h1;
             h3 = unmount (snd (ornament_effect p h)) h2
         in raf_pending h3 = [] \<and> resize_listeners h3 = []
          \<and> canvas (run_events later h3) = canvas h2"
proof -
  have running: "ornament_running p (run_events evs (fst (ornament_effect p h)))"
    by (intro run_events_running ornament_effect_running assms)
  have cl: "snd (ornament_effect p h) = Some (OrnamentCleanup p)"
    by (rule ornament_effect_running [OF assms])
  show ?thesis
    using ornament_cleanup_quiet [OF running]
      run_events_quiet [of "ornament_cleanup p (run_events evs (fst (ornament_effect p h)))" later]
    by (simp add: Let_def cl unmount_def quiet_def)
qed

end
